theory Spec2Isabelle
  imports Complex_Main "HOL-Library.Word"
begin

section \<open>Global configuration of imd\_grd\_to\_nc.py\<close>

text \<open>
  Paths and all other Python strings are strings of 8-bit characters. The regular
  expressions of the program name only ASCII letters, digits, the dot and, through the
  dot wildcard, the line feed. On 8-bit characters Python 2 and Python 3 agree on them;
  under Python 3 the flag \<^verbatim>\<open>re.IGNORECASE\<close> lets the letter \<open>i\<close> of a pattern also
  match the code points U+0130 and U+0131, which lie outside the strings modelled here.
\<close>

type_synonym byte = "8 word"

definition MIN_YEAR :: int where
  "MIN_YEAR = 1900"

definition MAX_YEAR :: int where
  "MAX_YEAR = 2100"

text \<open>
  \<^verbatim>\<open>np.arange(start, stop, step)\<close>: the values \<open>start + k * step\<close> for
  \<open>0 \<le> k < ceil((stop - start) / step)\<close>. All bounds and steps of the program are
  multiples of 0.25, on which binary floating point is exact, so rationals give the same
  axis values and the same counts.
\<close>

definition arange :: "rat \<Rightarrow> rat \<Rightarrow> rat \<Rightarrow> rat list" where
  "arange start stop step =
     map (\<lambda>k. start + of_nat k * step) [0..<nat \<lceil>(stop - start) / step\<rceil>]"

record dataset_spec =
  ds_lats :: "rat list"
  ds_lons :: "rat list"
  ds_nc_var :: string
  ds_nc_units :: string
  ds_fill :: rat

text \<open>
  The dict \<^verbatim>\<open>DATA_TYPES\<close> (lines 51-73), keyed by the type string. The fill value
  99.9 of the temperature types is a Python float: the double nearest to 99.9, written
  here as the fraction it is exactly equal to.
\<close>

definition DATA_TYPES :: "string \<rightharpoonup> dataset_spec" where
  "DATA_TYPES =
     [''rain'' \<mapsto>
        \<lparr>ds_lats = arange 6.5 38.75 0.25, ds_lons = arange 66.5 100.25 0.25,
         ds_nc_var = ''rainfall'', ds_nc_units = ''mm'', ds_fill = - 999\<rparr>,
      ''mintemp'' \<mapsto>
        \<lparr>ds_lats = arange 7.5 38.5 1, ds_lons = arange 67.5 98.5 1,
         ds_nc_var = ''min_temp'', ds_nc_units = ''celsius'', ds_fill = 3514918771674317 / 35184372088832\<rparr>,
      ''maxtemp'' \<mapsto>
        \<lparr>ds_lats = arange 7.5 38.5 1, ds_lons = arange 67.5 98.5 1,
         ds_nc_var = ''max_temp'', ds_nc_units = ''celsius'', ds_fill = 3514918771674317 / 35184372088832\<rparr>]"

record nc_config =
  file_ext :: string
  time_var :: string
  lat_var :: string
  lat_units :: string
  lon_var :: string
  lon_units :: string
  calendar :: string
  comp_level :: nat

definition NC_CONFIG :: nc_config where
  "NC_CONFIG =
     \<lparr>file_ext = ''.nc'', time_var = ''time'', lat_var = ''latitude'',
      lat_units = ''degrees_north'', lon_var = ''longitude'',
      lon_units = ''degrees_east'', calendar = ''standard'', comp_level = 3\<rparr>"

section \<open>Options, descriptors, errors and the environment\<close>

text \<open>
  The namespace returned by \<^verbatim>\<open>get_options\<close>: \<^verbatim>\<open>--infile\<close> is required, every other
  option is \<^verbatim>\<open>None\<close> unless given. argparse restricts \<^verbatim>\<open>--type\<close> to the keys of
  \<^verbatim>\<open>DATA_TYPES\<close>.
\<close>

record options =
  infile :: string
  outfile :: "string option"
  clobber :: bool
  opt_type :: "string option"
  opt_year :: "int option"
  ncvar :: "string option"
  ncunits :: "string option"

text \<open>The dict \<^verbatim>\<open>prog_input\<close> built by \<^verbatim>\<open>get_input\<close> and rebuilt by \<^verbatim>\<open>check_input\<close>.\<close>

record prog_input =
  in_filename :: string
  in_size :: int
  in_type :: string
  in_days :: int
  in_year :: int
  in_year_match :: bool

text \<open>The dict \<^verbatim>\<open>prog_output\<close> built by \<^verbatim>\<open>check_output\<close>.\<close>

record prog_output =
  out_filename :: string
  out_nc_var :: string
  out_nc_units :: string

text \<open>
  Every \<^verbatim>\<open>sys.exit(1)\<close> and every exception the modelled code can raise is an error
  value. The fields are what the diagnostic is formatted from; the Boolean of the two
  leap-year errors records whether the line
  \<^verbatim>\<open>Try specifying a year with the -y option\<close> is appended.
\<close>

datatype error =
    Input_missing string
  | Invalid_size
  | Ambiguous_temp
  | Type_mismatch string string
  | Year_missing
  | Invalid_year int
  | Not_leap_year string int bool
  | Leap_year string int bool
  | Output_exists string
  | Key_error string
  | IO_error string
  | Index_error
  | Struct_error
  | Value_error

text \<open>
  What the program asks of the operating system: \<^verbatim>\<open>os.path.exists\<close>,
  \<^verbatim>\<open>os.path.getsize\<close>, \<^verbatim>\<open>os.path.abspath\<close> and the bytes \<^verbatim>\<open>open(path, 'rb')\<close> reads.
\<close>

record filesys =
  path_exists :: "string \<Rightarrow> bool"
  getsize :: "string \<Rightarrow> int"
  abspath :: "string \<Rightarrow> string"
  file_bytes :: "string \<rightharpoonup> byte list"

section \<open>String and regular-expression helpers\<close>

text \<open>\<^verbatim>\<open>os.path.basename\<close> (posixpath): everything after the last slash.\<close>

definition basename :: "string \<Rightarrow> string" where
  "basename p = rev (takeWhile (\<lambda>c. c \<noteq> CHR ''/'') (rev p))"

definition is_upper :: "char \<Rightarrow> bool" where
  "is_upper c = (let n = (of_char c :: nat) in 65 \<le> n \<and> n \<le> 90)"

text \<open>ASCII lower-casing: an upper-case letter gets bit 5 set.\<close>

definition lower :: "char \<Rightarrow> char" where
  "lower c =
     (if is_upper c
      then (case c of Char b0 b1 b2 b3 b4 b5 b6 b7 \<Rightarrow> Char b0 b1 b2 b3 b4 True b6 b7)
      else c)"

definition is_digit :: "char \<Rightarrow> bool" where
  "is_digit c = (let n = (of_char c :: nat) in 48 \<le> n \<and> n \<le> 57)"

text \<open>The literal \<open>lit\<close> matches at the head of the subject, ignoring ASCII case.\<close>

fun starts_with_ci :: "string \<Rightarrow> string \<Rightarrow> bool" where
  "starts_with_ci [] s = True"
| "starts_with_ci (p # ps) [] = False"
| "starts_with_ci (p # ps) (c # cs) = (lower p = lower c \<and> starts_with_ci ps cs)"

text \<open>
  \<^verbatim>\<open>re.match(r'.*LIT.*', s, flags=re.IGNORECASE)\<close>: the match is anchored at the start of
  \<open>s\<close>; the leading \<^verbatim>\<open>.*\<close> consumes any characters but the line feed, which the dot does
  not match; the trailing \<^verbatim>\<open>.*\<close> may be empty.
\<close>

fun re_match_contains_ci :: "string \<Rightarrow> string \<Rightarrow> bool" where
  "re_match_contains_ci lit [] = starts_with_ci lit []"
| "re_match_contains_ci lit (c # cs) =
     (starts_with_ci lit (c # cs) \<or> (c \<noteq> CHR 0x0A \<and> re_match_contains_ci lit cs))"

text \<open>
  \<^verbatim>\<open>re.search(r'[0-9]{4}', s)\<close>: the leftmost position at which four digits follow each
  other; the result is \<^verbatim>\<open>group(0)\<close>.
\<close>

fun re_search_digits4 :: "string \<Rightarrow> string option" where
  "re_search_digits4 [] = None"
| "re_search_digits4 (c # cs) =
     (if 4 \<le> length (c # cs) \<and> list_all is_digit (take 4 (c # cs))
      then Some (take 4 (c # cs))
      else re_search_digits4 cs)"

text \<open>\<^verbatim>\<open>int(s)\<close> on a string of decimal digits.\<close>

definition digit_val :: "char \<Rightarrow> int" where
  "digit_val c = int (of_char c) - 48"

definition int_of_digits :: "string \<Rightarrow> int" where
  "int_of_digits s = foldl (\<lambda>a c. 10 * a + digit_val c) 0 s"

text \<open>
  \<^verbatim>\<open>\.[^\.]+$\<close> matched at the head of the subject: a dot, then at least one character,
  none of them a dot, up to the end of the string. (The \<^verbatim>\<open>$\<close> of Python also matches
  just before a final line feed; the class \<^verbatim>\<open>[^\.]\<close> matches that line feed as well, so
  this admits no further string.)
\<close>

fun re_ext_here :: "string \<Rightarrow> bool" where
  "re_ext_here [] = False"
| "re_ext_here (c # cs) =
     (c = CHR ''.'' \<and> cs \<noteq> [] \<and> list_all (\<lambda>x. x \<noteq> CHR ''.'') cs)"

text \<open>\<^verbatim>\<open>re.match(r'.*\.[^\.]+$', s)\<close>: again the leading \<^verbatim>\<open>.*\<close> stops at a line feed.\<close>

fun re_match_ext :: "string \<Rightarrow> bool" where
  "re_match_ext [] = False"
| "re_match_ext (c # cs) = (re_ext_here (c # cs) \<or> (c \<noteq> CHR 0x0A \<and> re_match_ext cs))"

text \<open>
  \<^verbatim>\<open>re.sub(r'\.[^\.]+$', repl, s)\<close>: the subject is scanned from the left; the first match
  runs to the end of the string and is replaced.
\<close>

fun re_sub_ext :: "string \<Rightarrow> string \<Rightarrow> string" where
  "re_sub_ext repl [] = []"
| "re_sub_ext repl (c # cs) =
     (if re_ext_here (c # cs) then repl else c # re_sub_ext repl cs)"

section \<open>Input inference: get\_input\<close>

text \<open>Lines 160-180: type and day count from the exact byte size.\<close>

definition size_type_days :: "int \<Rightarrow> error + (string \<times> int)" where
  "size_type_days input_size =
     (if input_size = 25425901 then Inr (''rain'', 365)
      else if input_size = 25495561 then Inr (''rain'', 366)
      else if input_size = 1403061 then Inr (''temp'', 365)
      else if input_size = 1406905 then Inr (''temp'', 366)
      else Inl Invalid_size)"

text \<open>
  Lines 183-186: the two filename tests, in the order of the source; neither looks at
  the type found so far.
\<close>

definition guess_temp_type :: "string \<Rightarrow> string \<Rightarrow> string" where
  "guess_temp_type in_file t0 =
     (let t1 = (if re_match_contains_ci ''max'' (basename in_file) then ''maxtemp'' else t0);
          t2 = (if re_match_contains_ci ''min'' (basename in_file) then ''mintemp'' else t1)
      in t2)"

text \<open>Lines 188-196: the year and the \<^verbatim>\<open>year_match\<close> flag.\<close>

definition guess_year :: "string \<Rightarrow> int \<times> bool" where
  "guess_year in_file =
     (case re_search_digits4 in_file of
        Some g \<Rightarrow> (int_of_digits g, True)
      | None \<Rightarrow> (- 1, False))"

definition get_input :: "options \<Rightarrow> filesys \<Rightarrow> error + prog_input" where
  "get_input prog_options fs =
     (let in_file = infile prog_options in
      if \<not> path_exists fs in_file then Inl (Input_missing in_file)
      else
        (case size_type_days (getsize fs in_file) of
           Inl e \<Rightarrow> Inl e
         | Inr (t0, d) \<Rightarrow>
             Inr \<lparr>in_filename = abspath fs in_file,
                  in_size = getsize fs in_file,
                  in_type = guess_temp_type in_file t0,
                  in_days = d,
                  in_year = fst (guess_year in_file),
                  in_year_match = snd (guess_year in_file)\<rparr>))"

section \<open>Validation: check\_input\<close>

text \<open>
  Lines 208-212 and 236-242. Python tests the options for truth, so an empty type
  string and the year 0 count as not given.
\<close>

definition resolve_type :: "options \<Rightarrow> prog_input \<Rightarrow> string" where
  "resolve_type prog_options prog_input_in =
     (case opt_type prog_options of
        Some t \<Rightarrow> if t = [] then in_type prog_input_in else t
      | None \<Rightarrow> in_type prog_input_in)"

definition resolve_year :: "options \<Rightarrow> prog_input \<Rightarrow> int \<times> bool" where
  "resolve_year prog_options prog_input_in =
     (case opt_year prog_options of
        Some y \<Rightarrow>
          if y = 0 then (in_year prog_input_in, in_year_match prog_input_in)
          else (y, False)
      | None \<Rightarrow> (in_year prog_input_in, in_year_match prog_input_in))"

text \<open>Lines 222-227: the condition of the type cross-check, with the literals of the source.\<close>

definition type_mismatch :: "string \<Rightarrow> string \<Rightarrow> bool" where
  "type_mismatch out_type inferred =
     ((out_type = ''rain'' \<and> inferred \<noteq> ''rain'') \<or>
      (out_type = ''min_temp'' \<and> inferred = ''rain'') \<or>
      (out_type = ''max_temp'' \<and> inferred = ''rain''))"

definition check_input :: "options \<Rightarrow> prog_input \<Rightarrow> error + prog_input" where
  "check_input prog_options prog_input_in =
     (let out_type = resolve_type prog_options prog_input_in;
          out_year = fst (resolve_year prog_options prog_input_in);
          out_year_match = snd (resolve_year prog_options prog_input_in)
      in
      if out_type = ''temp'' then Inl Ambiguous_temp
      else if type_mismatch out_type (in_type prog_input_in)
        then Inl (Type_mismatch out_type (in_type prog_input_in))
      else if out_year = - 1 then Inl Year_missing
      else if MIN_YEAR > out_year \<or> MAX_YEAR < out_year then Inl (Invalid_year out_year)
      else if in_days prog_input_in = 366 \<and> out_year mod 4 \<noteq> 0
        then Inl (Not_leap_year (in_filename prog_input_in) out_year out_year_match)
      else if in_days prog_input_in = 365 \<and> out_year mod 4 = 0
        then Inl (Leap_year (in_filename prog_input_in) out_year out_year_match)
      else
        Inr \<lparr>in_filename = in_filename prog_input_in,
             in_size = in_size prog_input_in,
             in_type = out_type,
             in_days = in_days prog_input_in,
             in_year = out_year,
             in_year_match = out_year_match\<rparr>)"

section \<open>Output resolution: check\_output\<close>

text \<open>
  Lines 296-311: the output file name. An empty \<^verbatim>\<open>--outfile\<close> is false in Python and
  is treated like a missing one.
\<close>

definition output_filename :: "string option \<Rightarrow> string \<Rightarrow> string" where
  "output_filename out_opt in_name =
     (case (case out_opt of
              Some f \<Rightarrow> if f = [] then None else Some f
            | None \<Rightarrow> None) of
        Some f \<Rightarrow> f
      | None \<Rightarrow>
          if re_match_ext in_name then re_sub_ext (file_ext NC_CONFIG) in_name
          else in_name @ file_ext NC_CONFIG)"

text \<open>Lines 320-330: \<^verbatim>\<open>DATA_TYPES[type][key]\<close> raises KeyError for an unknown type.\<close>

definition default_of ::
  "(dataset_spec \<Rightarrow> string) \<Rightarrow> string option \<Rightarrow> string \<Rightarrow> error + string" where
  "default_of field override t =
     (case (case override of
              Some v \<Rightarrow> if v = [] then None else Some v
            | None \<Rightarrow> None) of
        Some v \<Rightarrow> Inr v
      | None \<Rightarrow>
          (case DATA_TYPES t of
             None \<Rightarrow> Inl (Key_error t)
           | Some spec \<Rightarrow> Inr (field spec)))"

definition check_output :: "options \<Rightarrow> filesys \<Rightarrow> prog_input \<Rightarrow> error + prog_output" where
  "check_output prog_options fs prog_input =
     (let fname = output_filename (outfile prog_options) (in_filename prog_input) in
      if path_exists fs fname \<and> \<not> clobber prog_options then Inl (Output_exists fname)
      else
        (case default_of ds_nc_var (ncvar prog_options) (in_type prog_input) of
           Inl e \<Rightarrow> Inl e
         | Inr v \<Rightarrow>
             (case default_of ds_nc_units (ncunits prog_options) (in_type prog_input) of
                Inl e \<Rightarrow> Inl e
              | Inr u \<Rightarrow>
                  Inr \<lparr>out_filename = fname, out_nc_var = v, out_nc_units = u\<rparr>)))"

section \<open>Decode: read\_data\<close>

text \<open>
  The dict \<^verbatim>\<open>prog_data\<close>. A cell of the array has type \<open>'v\<close>: the value
  \<^verbatim>\<open>struct.unpack\<close> makes of one 32-bit pattern. That conversion is a parameter
  \<open>f32\<close> of the model, as is the \<^verbatim>\<open>nan\<close> the array is filled with before the loop.
\<close>

record 'v prog_data =
  pd_lats :: "rat list"
  pd_lons :: "rat list"
  pd_nlats :: nat
  pd_nlons :: nat
  pd_type :: string
  pd_year :: int
  pd_days :: int
  pd_fill :: rat
  pd_data :: "'v list list list"

text \<open>Four bytes, least significant first, as one 32-bit word.\<close>

definition le_word32 :: "byte list \<Rightarrow> 32 word" where
  "le_word32 bs = foldr (\<lambda>b w. ucast b + push_bit 8 w) bs 0"

text \<open>
  \<^verbatim>\<open>struct.unpack('<' + 'f' * n, day_bytes)\<close>: raises \<^verbatim>\<open>struct.error\<close> unless exactly
  \<open>4 * n\<close> bytes are given; value \<open>k\<close> is decoded from bytes \<open>4k .. 4k+3\<close>.
\<close>

definition struct_unpack :: "(32 word \<Rightarrow> 'v) \<Rightarrow> nat \<Rightarrow> byte list \<Rightarrow> error + 'v list" where
  "struct_unpack f32 n day_bytes =
     (if length day_bytes = 4 * n
      then Inr (map (\<lambda>k. f32 (le_word32 (take 4 (drop (4 * k) day_bytes)))) [0..<n])
      else Inl Struct_error)"

text \<open>\<^verbatim>\<open>np.asarray(day_data).reshape((lat_count, lon_count))\<close>, row-major.\<close>

definition reshape :: "nat \<Rightarrow> nat \<Rightarrow> 'v list \<Rightarrow> error + 'v list list" where
  "reshape lat_count lon_count xs =
     (if length xs = lat_count * lon_count
      then Inr (map (\<lambda>i. take lon_count (drop (i * lon_count) xs)) [0..<lat_count])
      else Inl Value_error)"

text \<open>
  The loop of lines 358-366 over the day indices. The open file is the list of bytes not
  read yet: \<^verbatim>\<open>read(n)\<close> returns at most \<open>n\<close> of them and advances.
\<close>

fun read_days ::
  "(32 word \<Rightarrow> 'v) \<Rightarrow> nat \<Rightarrow> nat \<Rightarrow> nat list \<Rightarrow> byte list \<Rightarrow> 'v list list list
     \<Rightarrow> error + (byte list \<times> 'v list list list)" where
  "read_days f32 lat_count lon_count [] data_file data_data = Inr (data_file, data_data)"
| "read_days f32 lat_count lon_count (i # rest) data_file data_data =
     (let day_bytes = take (lat_count * lon_count * 4) data_file;
          data_file' = drop (lat_count * lon_count * 4) data_file
      in
      case struct_unpack f32 (lat_count * lon_count) day_bytes of
        Inl e \<Rightarrow> Inl e
      | Inr day_data \<Rightarrow>
          (case reshape lat_count lon_count day_data of
             Inl e \<Rightarrow> Inl e
           | Inr grid \<Rightarrow>
               if i < length data_data
               then read_days f32 lat_count lon_count rest data_file' (data_data[i := grid])
               else Inl Index_error))"

definition read_data ::
  "(32 word \<Rightarrow> 'v) \<Rightarrow> 'v \<Rightarrow> filesys \<Rightarrow> prog_input \<Rightarrow> error + 'v prog_data" where
  "read_data f32 nan fs prog_input =
     (case DATA_TYPES (in_type prog_input) of
        None \<Rightarrow> Inl (Key_error (in_type prog_input))
      | Some spec \<Rightarrow>
          (let data_days = in_days prog_input;
               lat_count = length (ds_lats spec);
               lon_count = length (ds_lons spec)
           in
           if data_days < 0 then Inl Value_error
           else if data_days = 0 then Inl Index_error
           else
             (case file_bytes fs (in_filename prog_input) of
                None \<Rightarrow> Inl (IO_error (in_filename prog_input))
              | Some bytes \<Rightarrow>
                  (case read_days f32 lat_count lon_count [0..<nat data_days] bytes
                          (replicate (nat data_days)
                             (replicate lat_count (replicate lon_count nan))) of
                     Inl e \<Rightarrow> Inl e
                   | Inr (rest, data_data) \<Rightarrow>
                       Inr \<lparr>pd_lats = ds_lats spec, pd_lons = ds_lons spec,
                            pd_nlats = lat_count, pd_nlons = lon_count,
                            pd_type = in_type prog_input, pd_year = in_year prog_input,
                            pd_days = in_days prog_input, pd_fill = ds_fill spec,
                            pd_data = data_data\<rparr>))))"

section \<open>Emit: write\_data\<close>

text \<open>
  The NetCDF file as the values \<^verbatim>\<open>write_data\<close> hands to the netCDF4 library. The units
  of the time axis are \<^verbatim>\<open>'days since {year}-01-01 00:00:00.0'\<close>; the record keeps the year.
\<close>

record 'v nc_file =
  nc_filename :: string
  nc_time_name :: string
  nc_time_since_year :: int
  nc_time_calendar :: string
  nc_time_values :: "int list"
  nc_lat_name :: string
  nc_lat_values :: "rat list"
  nc_lat_units :: string
  nc_lon_name :: string
  nc_lon_values :: "rat list"
  nc_lon_units :: string
  nc_data_name :: string
  nc_data_dims :: "string list"
  nc_data_complevel :: nat
  nc_data_fill :: rat
  nc_data_values :: "'v list list list"
  nc_data_units :: string

definition write_data :: "'v prog_data \<Rightarrow> prog_output \<Rightarrow> error + 'v nc_file" where
  "write_data prog_data prog_output =
     (case DATA_TYPES (pd_type prog_data) of
        None \<Rightarrow> Inl (Key_error (pd_type prog_data))
      | Some spec \<Rightarrow>
          Inr \<lparr>nc_filename = out_filename prog_output,
               nc_time_name = time_var NC_CONFIG,
               nc_time_since_year = pd_year prog_data,
               nc_time_calendar = calendar NC_CONFIG,
               nc_time_values = map int [0..<nat (pd_days prog_data)],
               nc_lat_name = lat_var NC_CONFIG,
               nc_lat_values = pd_lats prog_data,
               nc_lat_units = lat_units NC_CONFIG,
               nc_lon_name = lon_var NC_CONFIG,
               nc_lon_values = pd_lons prog_data,
               nc_lon_units = lon_units NC_CONFIG,
               nc_data_name = ds_nc_var spec,
               nc_data_dims = [time_var NC_CONFIG, lat_var NC_CONFIG, lon_var NC_CONFIG],
               nc_data_complevel = comp_level NC_CONFIG,
               nc_data_fill = ds_fill spec,
               nc_data_values = pd_data prog_data,
               nc_data_units = ds_nc_units spec\<rparr>)"

section \<open>The pipeline: main\<close>

definition main :: "(32 word \<Rightarrow> 'v) \<Rightarrow> 'v \<Rightarrow> options \<Rightarrow> filesys \<Rightarrow> error + 'v nc_file" where
  "main f32 nan prog_options fs =
     (case get_input prog_options fs of
        Inl e \<Rightarrow> Inl e
      | Inr inp0 \<Rightarrow>
          (case check_input prog_options inp0 of
             Inl e \<Rightarrow> Inl e
           | Inr inp \<Rightarrow>
               (case check_output prog_options fs inp of
                  Inl e \<Rightarrow> Inl e
                | Inr outp \<Rightarrow>
                    (case read_data f32 nan fs inp of
                       Inl e \<Rightarrow> Inl e
                     | Inr prog_data \<Rightarrow> write_data prog_data outp))))"

section \<open>Notions used to state the properties\<close>

text \<open>
  The type checks of \<^verbatim>\<open>check_input\<close> (lines 215-234) let the run through: the effective
  type is not the sentinel \<^verbatim>\<open>'temp'\<close> and the cross-check does not fire.
\<close>

definition types_ok :: "options \<Rightarrow> prog_input \<Rightarrow> bool" where
  "types_ok opts inp =
     (resolve_type opts inp \<noteq> ''temp'' \<and>
      \<not> type_mismatch (resolve_type opts inp) (in_type inp))"

text \<open>
  The effective year in the words of the specification: the explicit \<^verbatim>\<open>--year\<close>
  override wins, otherwise it is the year inferred from the file name.
\<close>

definition spec_effective_year :: "options \<Rightarrow> prog_input \<Rightarrow> int" where
  "spec_effective_year opts inp =
     (case opt_year opts of Some y \<Rightarrow> y | None \<Rightarrow> in_year inp)"

text \<open>A character of the ASCII range, on which Python 2 and Python 3 fold case alike.\<close>

definition is_ascii :: "char \<Rightarrow> bool" where
  "is_ascii c = ((of_char c :: nat) < 128)"

text \<open>Four digits follow each other in \<open>s\<close> from position \<open>k\<close> on.\<close>

definition digits4_at :: "string \<Rightarrow> nat \<Rightarrow> bool" where
  "digits4_at s k = (k + 4 \<le> length s \<and> list_all is_digit (take 4 (drop k s)))"

text \<open>
  The year in the words of the specification, to compare \<^verbatim>\<open>get_input\<close> with: the first
  run of exactly four consecutive digits, that is four digits with no digit right before
  and none right after them. \<open>prev\<close> tells whether the character before the current
  position is a digit.
\<close>

fun spec_run4 :: "bool \<Rightarrow> string \<Rightarrow> string option" where
  "spec_run4 prev [] = None"
| "spec_run4 prev (c # cs) =
     (if \<not> prev \<and> 4 \<le> length (c # cs) \<and> list_all is_digit (take 4 (c # cs)) \<and>
         (case drop 4 (c # cs) of [] \<Rightarrow> True | x # _ \<Rightarrow> \<not> is_digit x)
      then Some (take 4 (c # cs))
      else spec_run4 (is_digit c) cs)"

definition spec_guess_year :: "string \<Rightarrow> int \<times> bool" where
  "spec_guess_year in_file =
     (case spec_run4 False in_file of
        Some g \<Rightarrow> (int_of_digits g, True)
      | None \<Rightarrow> (- 1, False))"

text \<open>
  The path \<open>p\<close> ends in an extension: a last dot followed by at least one character,
  none of them a dot. \<open>stem\<close> is what precedes that dot.
\<close>

definition final_ext_split :: "string \<Rightarrow> string \<Rightarrow> string \<Rightarrow> bool" where
  "final_ext_split p stem ext =
     (p = stem @ CHR ''.'' # ext \<and> ext \<noteq> [] \<and> CHR ''.'' \<notin> set ext)"

text \<open>
  The output path in the words of the specification, to compare \<^verbatim>\<open>check_output\<close> with:
  the override when one is supplied; otherwise the input path with its final extension (a
  trailing dot followed by non-dot characters) replaced by \<^verbatim>\<open>.nc\<close>; otherwise, when the
  path has no such extension, the path with \<^verbatim>\<open>.nc\<close> appended.
\<close>

definition spec_output_path :: "string option \<Rightarrow> string \<Rightarrow> string" where
  "spec_output_path override p =
     (case override of
        Some f \<Rightarrow> f
      | None \<Rightarrow>
          (let ext = takeWhile (\<lambda>c. c \<noteq> CHR ''.'') (rev p) in
           if CHR ''.'' \<in> set p \<and> ext \<noteq> []
           then rev (drop (Suc (length ext)) (rev p)) @ ''.nc''
           else p @ ''.nc''))"

text \<open>argparse accepts for \<^verbatim>\<open>--type\<close> only the keys of \<^verbatim>\<open>DATA_TYPES\<close>.\<close>

definition options_wf :: "options \<Rightarrow> bool" where
  "options_wf opts =
     (case opt_type opts of None \<Rightarrow> True | Some t \<Rightarrow> DATA_TYPES t \<noteq> None)"

text \<open>
  The value decoded from the four bytes at float position \<open>pos\<close> of the file, and the
  grid of day \<open>d\<close> read off the file in row-major order.
\<close>

definition cell_of :: "(32 word \<Rightarrow> 'v) \<Rightarrow> byte list \<Rightarrow> nat \<Rightarrow> 'v" where
  "cell_of f32 bytes pos = f32 (le_word32 (take 4 (drop (4 * pos) bytes)))"

definition day_grid ::
  "(32 word \<Rightarrow> 'v) \<Rightarrow> nat \<Rightarrow> nat \<Rightarrow> byte list \<Rightarrow> nat \<Rightarrow> 'v list list" where
  "day_grid f32 nlat nlon bytes d =
     map (\<lambda>i. map (\<lambda>j. cell_of f32 bytes ((d * nlat + i) * nlon + j)) [0..<nlon])
       [0..<nlat]"

section \<open>The year search\<close>

lemma digits4_at_Cons_Suc: "digits4_at (c # cs) (Suc k) = digits4_at cs k"
  by (auto simp: digits4_at_def)

lemma digits4_at_0: "digits4_at s 0 = (4 \<le> length s \<and> list_all is_digit (take 4 s))"
  by (simp add: digits4_at_def)

lemma digits4_at_Nil: "\<not> digits4_at [] k"
  by (simp add: digits4_at_def)

lemma re_search_digits4_None: "(re_search_digits4 s = None) = (\<forall>k. \<not> digits4_at s k)"
proof (induction s)
  case Nil
  then show ?case by (simp add: digits4_at_Nil)
next
  case (Cons c cs)
  show ?case
  proof (cases "digits4_at (c # cs) 0")
    case True
    then have "re_search_digits4 (c # cs) \<noteq> None" by (simp add: digits4_at_0)
    with True show ?thesis by blast
  next
    case False
    then have "re_search_digits4 (c # cs) = re_search_digits4 cs"
      by (auto simp: digits4_at_0)
    moreover have "(\<forall>k. \<not> digits4_at (c # cs) k) = (\<forall>k. \<not> digits4_at cs k)"
    proof
      assume h: "\<forall>k. \<not> digits4_at (c # cs) k"
      show "\<forall>k. \<not> digits4_at cs k"
      proof
        fix k
        from h have "\<not> digits4_at (c # cs) (Suc k)" by blast
        then show "\<not> digits4_at cs k" by (simp add: digits4_at_Cons_Suc)
      qed
    next
      assume h: "\<forall>k. \<not> digits4_at cs k"
      show "\<forall>k. \<not> digits4_at (c # cs) k"
      proof
        fix k
        show "\<not> digits4_at (c # cs) k"
          using False h by (cases k) (simp_all add: digits4_at_Cons_Suc)
      qed
    qed
    ultimately show ?thesis using Cons.IH by simp
  qed
qed

lemma re_search_digits4_leftmost:
  "digits4_at s k \<Longrightarrow> (\<And>j. j < k \<Longrightarrow> \<not> digits4_at s j)
     \<Longrightarrow> re_search_digits4 s = Some (take 4 (drop k s))"
proof (induction s arbitrary: k)
  case Nil
  then show ?case by (simp add: digits4_at_Nil)
next
  case (Cons c cs)
  show ?case
  proof (cases k)
    case 0
    with Cons.prems(1) show ?thesis by (simp add: digits4_at_0)
  next
    case (Suc k')
    then have no0: "\<not> digits4_at (c # cs) 0" using Cons.prems(2) by blast
    have at: "digits4_at cs k'" using Cons.prems(1) Suc by (simp add: digits4_at_Cons_Suc)
    have "\<And>j. j < k' \<Longrightarrow> \<not> digits4_at cs j"
    proof -
      fix j
      assume "j < k'"
      then have "Suc j < k" using Suc by simp
      then have "\<not> digits4_at (c # cs) (Suc j)" using Cons.prems(2) by blast
      then show "\<not> digits4_at cs j" by (simp add: digits4_at_Cons_Suc)
    qed
    with at have "re_search_digits4 cs = Some (take 4 (drop k' cs))" by (rule Cons.IH)
    moreover have "re_search_digits4 (c # cs) = re_search_digits4 cs"
      using no0 by (auto simp: digits4_at_0)
    ultimately show ?thesis using Suc by simp
  qed
qed

lemma int_of_digits4:
  "int_of_digits [a, b, c, d] =
     1000 * digit_val a + 100 * digit_val b + 10 * digit_val c + digit_val d"
  by (simp add: int_of_digits_def)

section \<open>Properties of input inference\<close>

text \<open>
  C3, at a rainfall-sized file whose name contains \<open>min\<close>. The comment above lines
  183-186 says the file name is consulted "if this is temperature data", but the two tests
  are not guarded by the type found from the size: a file of 25425901 bytes called
  \<open>rain_min_2001.grd\<close> leaves \<^verbatim>\<open>get_input\<close> with the type \<open>mintemp\<close>, not
  \<open>rain\<close>.
\<close>

theorem C3_filename_scan_not_guarded:
  "get_input
     \<lparr>infile = ''rain_min_2001.grd'', outfile = None, clobber = False,
      opt_type = None, opt_year = None, ncvar = None, ncunits = None\<rparr>
     \<lparr>path_exists = (\<lambda>p. p = ''rain_min_2001.grd''), getsize = (\<lambda>p. 25425901),
      abspath = (\<lambda>p. ''/data/'' @ p), file_bytes = (\<lambda>p. None)\<rparr>
   = Inr \<lparr>in_filename = ''/data/rain_min_2001.grd'', in_size = 25425901,
          in_type = ''mintemp'', in_days = 365, in_year = 2001, in_year_match = True\<rparr>"
  by (simp add: get_input_def size_type_days_def guess_temp_type_def
      guess_year_def basename_def lower_def is_upper_def is_digit_def int_of_digits_def
      digit_val_def)

text \<open>
  C8, as stated, fails where a run of digits is longer than four. The path
  \<open>rain_20010101.grd\<close> has one run of digits, of length eight, hence no run of exactly
  four digits: in the words of the claim the year is unknown. \<^verbatim>\<open>re.search(r'[0-9]{4}', ...)\<close>
  matches the first four digits of that run, so the year is 2001 and the flag is set. In
  \<open>12345/rain_2001.grd\<close> the first run of exactly four digits is \<open>2001\<close>, while the
  code takes 1234 from the directory name.
\<close>

theorem C8_longer_run_counterexample:
  "guess_year ''rain_20010101.grd'' = (2001, True) \<and>
   spec_guess_year ''rain_20010101.grd'' = (- 1, False) \<and>
   guess_year ''rain_20010101.grd'' \<noteq> spec_guess_year ''rain_20010101.grd'' \<and>
   guess_year ''12345/rain_2001.grd'' = (1234, True) \<and>
   spec_guess_year ''12345/rain_2001.grd'' = (2001, True) \<and>
   guess_year ''12345/rain_2001.grd'' \<noteq> spec_guess_year ''12345/rain_2001.grd''"
  by (simp add: guess_year_def spec_guess_year_def is_digit_def int_of_digits_def
      digit_val_def)

text \<open>
  C8, amended: the year is read from the leftmost place of the path (directories included)
  at which four digits follow each other, that is from the first four digits of the
  leftmost run of four or more digits, as a decimal number, and the flag
  \<^verbatim>\<open>year_match\<close> is set. When no four digits follow each other anywhere, the year is
  the sentinel -1 and the flag is cleared. Neither case is an error: for an existing file
  of a legal size \<^verbatim>\<open>get_input\<close> returns a descriptor with this year and this flag. Of
  several such places only the leftmost counts.
\<close>

theorem C8_year_from_path:
  "(path_exists fs (infile opts) \<and> size_type_days (getsize fs (infile opts)) = Inr td
      \<longrightarrow> (\<exists>inp. get_input opts fs = Inr inp \<and>
            in_year inp = fst (guess_year (infile opts)) \<and>
            in_year_match inp = snd (guess_year (infile opts)))) \<and>
   (digits4_at p k \<and> (\<forall>j<k. \<not> digits4_at p j)
      \<longrightarrow> guess_year p = (int_of_digits (take 4 (drop k p)), True)) \<and>
   ((\<forall>j. \<not> digits4_at p j) \<longrightarrow> guess_year p = (- 1, False)) \<and>
   int_of_digits [a, b, c, d] =
     1000 * digit_val a + 100 * digit_val b + 10 * digit_val c + digit_val d"
proof -
  have 1: "path_exists fs (infile opts) \<and> size_type_days (getsize fs (infile opts)) = Inr td
      \<longrightarrow> (\<exists>inp. get_input opts fs = Inr inp \<and>
            in_year inp = fst (guess_year (infile opts)) \<and>
            in_year_match inp = snd (guess_year (infile opts)))"
    by (cases td) (simp add: get_input_def Let_def)
  have 2: "digits4_at p k \<and> (\<forall>j<k. \<not> digits4_at p j)
      \<longrightarrow> guess_year p = (int_of_digits (take 4 (drop k p)), True)"
    using re_search_digits4_leftmost [of p k] by (auto simp: guess_year_def)
  have 3: "(\<forall>j. \<not> digits4_at p j) \<longrightarrow> guess_year p = (- 1, False)"
    using re_search_digits4_None [of p] by (auto simp: guess_year_def)
  from 1 2 3 int_of_digits4 show ?thesis by blast
qed

theorem C8_year_from_path_witness:
  "(\<exists>inp. get_input
      \<lparr>infile = ''/data/2019/ind2001_rfp25.grd'', outfile = None, clobber = False,
       opt_type = None, opt_year = None, ncvar = None, ncunits = None\<rparr>
      \<lparr>path_exists = (\<lambda>p. True), getsize = (\<lambda>p. 25425901),
       abspath = (\<lambda>p. p), file_bytes = (\<lambda>p. None)\<rparr> = Inr inp \<and>
      in_year inp = 2019 \<and> in_year_match inp) \<and>
   guess_year ''/data/rain.grd'' = (- 1, False)"
proof -
  let ?p = "''/data/2019/ind2001_rfp25.grd''"
  let ?opts = "\<lparr>infile = ?p, outfile = None, clobber = False,
       opt_type = None, opt_year = None, ncvar = None, ncunits = None\<rparr>"
  let ?fs = "\<lparr>path_exists = (\<lambda>p. True), getsize = (\<lambda>p. 25425901),
       abspath = (\<lambda>p. p), file_bytes = (\<lambda>p. None)\<rparr>"
  have sz: "size_type_days (getsize ?fs (infile ?opts)) = Inr (''rain'', 365)"
    by (simp add: size_type_days_def)
  have a: "digits4_at ?p 6" by (simp add: digits4_at_def is_digit_def)
  have b: "\<forall>j<6. \<not> digits4_at ?p j"
    by (simp add: digits4_at_def is_digit_def eval_nat_numeral All_less_Suc)
  have c: "\<forall>j. \<not> digits4_at ''/data/rain.grd'' j"
    using re_search_digits4_None [of "''/data/rain.grd''"] by (simp add: is_digit_def)
  have d: "int_of_digits (take 4 (drop 6 ?p)) = 2019"
    by (simp add: int_of_digits_def digit_val_def)
  have ex: "path_exists ?fs (infile ?opts)" by simp
  note T = C8_year_from_path [of ?fs ?opts "(''rain'', 365)" ?p 6]
  from T a b have g: "guess_year ?p = (int_of_digits (take 4 (drop 6 ?p)), True)"
    by blast
  from T ex sz have "\<exists>inp. get_input ?opts ?fs = Inr inp \<and>
      in_year inp = fst (guess_year (infile ?opts)) \<and>
      in_year_match inp = snd (guess_year (infile ?opts))"
    by blast
  with g d have "\<exists>inp. get_input ?opts ?fs = Inr inp \<and> in_year inp = 2019 \<and> in_year_match inp"
    by auto
  moreover from C8_year_from_path [of ?fs ?opts "(''rain'', 365)" "''/data/rain.grd''" 0] c
  have "guess_year ''/data/rain.grd'' = (- 1, False)" by blast
  ultimately show ?thesis by blast
qed

section \<open>Matching a literal and an extension\<close>

lemma starts_with_ci_append:
  "map lower m = map lower lit \<Longrightarrow> starts_with_ci lit (m @ post)"
proof (induction lit arbitrary: m)
  case Nil
  then show ?case by simp
next
  case (Cons p ps)
  then obtain c cs where m: "m = c # cs" by (cases m) auto
  with Cons.prems have "lower p = lower c" and "map lower cs = map lower ps" by auto
  with Cons.IH m show ?case by simp
qed

lemma re_match_contains_ci_here:
  "starts_with_ci lit s \<Longrightarrow> re_match_contains_ci lit s"
  by (cases s) auto

lemma re_match_contains_ci_intro:
  "CHR 0x0A \<notin> set pre \<Longrightarrow> map lower m = map lower lit
     \<Longrightarrow> re_match_contains_ci lit (pre @ m @ post)"
proof (induction pre)
  case Nil
  then show ?case
    by (simp add: re_match_contains_ci_here starts_with_ci_append)
next
  case (Cons c pre)
  then show ?case by auto
qed

lemma re_match_ext_intro:
  "CHR 0x0A \<notin> set stem \<Longrightarrow> ext \<noteq> [] \<Longrightarrow> CHR ''.'' \<notin> set ext
     \<Longrightarrow> re_match_ext (stem @ CHR ''.'' # ext)"
  by (induction stem) (auto simp: list_all_iff)

lemma re_match_ext_elim:
  "re_match_ext s \<Longrightarrow>
     \<exists>stem ext. s = stem @ CHR ''.'' # ext \<and> ext \<noteq> [] \<and> CHR ''.'' \<notin> set ext \<and>
       CHR 0x0A \<notin> set stem"
proof (induction s)
  case Nil
  then show ?case by simp
next
  case (Cons c cs)
  show ?case
  proof (cases "re_ext_here (c # cs)")
    case True
    then have "c # cs = [] @ CHR ''.'' # cs \<and> cs \<noteq> [] \<and> CHR ''.'' \<notin> set cs \<and>
        CHR 0x0A \<notin> set ([] :: string)"
      by (auto simp: list_all_iff)
    then show ?thesis by blast
  next
    case False
    with Cons.prems have nl: "c \<noteq> CHR 0x0A" and "re_match_ext cs" by auto
    with Cons.IH obtain stem ext where
      "cs = stem @ CHR ''.'' # ext" "ext \<noteq> []" "CHR ''.'' \<notin> set ext" "CHR 0x0A \<notin> set stem"
      by blast
    with nl have "c # cs = (c # stem) @ CHR ''.'' # ext \<and> ext \<noteq> [] \<and>
        CHR ''.'' \<notin> set ext \<and> CHR 0x0A \<notin> set (c # stem)"
      by simp
    then show ?thesis by blast
  qed
qed

lemma re_sub_ext_split:
  "ext \<noteq> [] \<Longrightarrow> CHR ''.'' \<notin> set ext
     \<Longrightarrow> re_sub_ext r (stem @ CHR ''.'' # ext) = stem @ r"
  by (induction stem) (auto simp: list_all_iff)

lemma split_unique:
  "s @ CHR ''.'' # e = stem @ CHR ''.'' # ext \<Longrightarrow> CHR ''.'' \<notin> set e
     \<Longrightarrow> CHR ''.'' \<notin> set ext \<Longrightarrow> s = stem"
proof (induction s arbitrary: stem)
  case Nil
  then show ?case by (cases stem) auto
next
  case (Cons c s)
  then show ?case by (cases stem) auto
qed

lemma output_filename_no_ext:
  "out_opt = None \<or> out_opt = Some [] \<Longrightarrow> \<not> re_match_ext p
     \<Longrightarrow> output_filename out_opt p = p @ ''.nc''"
  by (auto simp: output_filename_def NC_CONFIG_def)

lemma check_output_filename:
  "check_output opts fs inp = Inr out
     \<Longrightarrow> out_filename out = output_filename (outfile opts) (in_filename inp)"
  by (auto simp: check_output_def Let_def split: if_splits sum.splits)

section \<open>Properties of the file-name tests\<close>

text \<open>
  C10, as stated, fails for a name with a line feed between the two words. The base name
  \<open>max\<newline>min_2001.grd\<close> contains \<open>max\<close> and contains \<open>min\<close>, yet \<^verbatim>\<open>re.match\<close>
  finds only \<open>max\<close>, because the dot of \<^verbatim>\<open>.*min.*\<close> does not match a line feed and the
  match is anchored at the start: the type of this temperature-sized file is \<open>maxtemp\<close>.
\<close>

theorem C10_line_feed_counterexample:
  "basename (''/data/max'' @ [CHR 0x0A] @ ''min_2001.grd'')
     = '''' @ ''max'' @ ([CHR 0x0A] @ ''min_2001.grd'') \<and>
   basename (''/data/max'' @ [CHR 0x0A] @ ''min_2001.grd'')
     = (''max'' @ [CHR 0x0A]) @ ''min'' @ ''_2001.grd'' \<and>
   get_input
      \<lparr>infile = ''/data/max'' @ [CHR 0x0A] @ ''min_2001.grd'', outfile = None,
       clobber = False, opt_type = None, opt_year = None, ncvar = None, ncunits = None\<rparr>
      \<lparr>path_exists = (\<lambda>p. True), getsize = (\<lambda>p. 1403061),
       abspath = (\<lambda>p. p), file_bytes = (\<lambda>p. None)\<rparr>
   = Inr \<lparr>in_filename = ''/data/max'' @ [CHR 0x0A] @ ''min_2001.grd'', in_size = 1403061,
          in_type = ''maxtemp'', in_days = 365, in_year = 2001, in_year_match = True\<rparr> \<and>
   ''maxtemp'' \<noteq> ''mintemp''"
  by (simp add: get_input_def size_type_days_def guess_temp_type_def
      guess_year_def basename_def lower_def is_upper_def is_digit_def int_of_digits_def
      digit_val_def)

text \<open>
  C10, amended: when the base name of a temperature-sized file contains \<open>min\<close> in any
  ASCII case and no line feed precedes that occurrence, the inferred type is \<open>mintemp\<close>,
  whether or not the name contains \<open>max\<close> as well: the test for \<open>min\<close> comes after
  the test for \<open>max\<close> and overwrites its result.
\<close>

theorem C10_min_overrides_max:
  "path_exists fs (infile opts) \<and>
   (getsize fs (infile opts) = 1403061 \<or> getsize fs (infile opts) = 1406905) \<and>
   basename (infile opts) = pre @ m @ post \<and> map lower m = ''min'' \<and> CHR 0x0A \<notin> set pre
     \<longrightarrow> (\<exists>inp. get_input opts fs = Inr inp \<and> in_type inp = ''mintemp'')"
proof (intro impI)
  assume h: "path_exists fs (infile opts) \<and>
   (getsize fs (infile opts) = 1403061 \<or> getsize fs (infile opts) = 1406905) \<and>
   basename (infile opts) = pre @ m @ post \<and> map lower m = ''min'' \<and> CHR 0x0A \<notin> set pre"
  have "map lower ''min'' = ''min''" by (simp add: lower_def is_upper_def)
  with h have "re_match_contains_ci ''min'' (basename (infile opts))"
    using re_match_contains_ci_intro [of pre m "''min''" post] by simp
  then have "guess_temp_type (infile opts) t = ''mintemp''" for t
    by (simp add: guess_temp_type_def)
  with h show "\<exists>inp. get_input opts fs = Inr inp \<and> in_type inp = ''mintemp''"
    by (auto simp: get_input_def size_type_days_def Let_def)
qed

theorem C10_min_overrides_max_witness:
  "re_match_contains_ci ''max'' (basename ''/data/Max_Min_2001.GRD'') \<and>
   (\<exists>inp. get_input
      \<lparr>infile = ''/data/Max_Min_2001.GRD'', outfile = None, clobber = False,
       opt_type = None, opt_year = None, ncvar = None, ncunits = None\<rparr>
      \<lparr>path_exists = (\<lambda>p. True), getsize = (\<lambda>p. 1403061),
       abspath = (\<lambda>p. p), file_bytes = (\<lambda>p. None)\<rparr> = Inr inp \<and>
      in_type inp = ''mintemp'')"
  using C10_min_overrides_max [where
      opts = "\<lparr>infile = ''/data/Max_Min_2001.GRD'', outfile = None, clobber = False,
        opt_type = None, opt_year = None, ncvar = None, ncunits = None\<rparr>" and
      fs = "\<lparr>path_exists = (\<lambda>p. True), getsize = (\<lambda>p. 1403061),
        abspath = (\<lambda>p. p), file_bytes = (\<lambda>p. None)\<rparr>" and
      pre = "''Max_''" and m = "''Min''" and post = "''_2001.GRD''"]
  by (simp add: basename_def lower_def is_upper_def)

section \<open>Properties of output resolution\<close>

text \<open>
  C7, as stated, fails at two inputs. The path \<open>/data/a\<newline>b.grd\<close> has the final
  extension \<open>.grd\<close>, but \<^verbatim>\<open>re.match(r'.*\.[^\.]+$', ...)\<close> fails on it, since the dot
  wildcard does not cross the line feed, so \<^verbatim>\<open>.nc\<close> is appended instead of replacing
  the extension. And an \<^verbatim>\<open>--outfile\<close> that is supplied but empty is false in the test of
  line 298, so the path is derived from the input path.
\<close>

theorem C7_output_path_counterexample:
  "output_filename None (''/data/a'' @ [CHR 0x0A] @ ''b.grd'')
     = ''/data/a'' @ [CHR 0x0A] @ ''b.grd.nc'' \<and>
   spec_output_path None (''/data/a'' @ [CHR 0x0A] @ ''b.grd'')
     = ''/data/a'' @ [CHR 0x0A] @ ''b.nc'' \<and>
   output_filename None (''/data/a'' @ [CHR 0x0A] @ ''b.grd'')
     \<noteq> spec_output_path None (''/data/a'' @ [CHR 0x0A] @ ''b.grd'') \<and>
   output_filename (Some []) ''/data/r.grd'' = ''/data/r.nc'' \<and>
   spec_output_path (Some []) ''/data/r.grd'' = [] \<and>
   output_filename (Some []) ''/data/r.grd'' \<noteq> spec_output_path (Some []) ''/data/r.grd''"
  by (simp add: output_filename_def spec_output_path_def NC_CONFIG_def)

text \<open>
  C7, amended: the output path is the \<^verbatim>\<open>--outfile\<close> override when one is supplied and
  not empty. Otherwise, when the input path ends in an extension (a last dot followed by
  at least one character, none a dot) and no line feed precedes that dot, it is the
  input path with the extension replaced by \<^verbatim>\<open>.nc\<close>; when a line feed precedes the dot,
  or the path has no such extension, it is the input path with \<^verbatim>\<open>.nc\<close> appended.
  Whenever \<^verbatim>\<open>check_output\<close> returns, its file name is this path; it depends on the
  override and the input path only, so two runs without an override on the same input
  path resolve to the same output path, whatever the other options and the file system.
\<close>

theorem C7_output_path:
  "(outfile opts = Some f \<and> f \<noteq> [] \<longrightarrow> output_filename (outfile opts) p = f) \<and>
   ((outfile opts = None \<or> outfile opts = Some []) \<and>
    final_ext_split p stem ext \<and> CHR 0x0A \<notin> set stem
      \<longrightarrow> output_filename (outfile opts) p = stem @ ''.nc'') \<and>
   ((outfile opts = None \<or> outfile opts = Some []) \<and>
    final_ext_split p stem ext \<and> CHR 0x0A \<in> set stem
      \<longrightarrow> output_filename (outfile opts) p = p @ ''.nc'') \<and>
   ((outfile opts = None \<or> outfile opts = Some []) \<and> (\<forall>s e. \<not> final_ext_split p s e)
      \<longrightarrow> output_filename (outfile opts) p = p @ ''.nc'') \<and>
   (check_output opts fs inp = Inr out
      \<longrightarrow> out_filename out = output_filename (outfile opts) (in_filename inp)) \<and>
   (check_output opts fs inp = Inr out \<and> check_output opts' fs' inp' = Inr out' \<and>
    in_filename inp = in_filename inp' \<and>
    (outfile opts = None \<or> outfile opts = Some []) \<and>
    (outfile opts' = None \<or> outfile opts' = Some [])
      \<longrightarrow> out_filename out = out_filename out')"
proof -
  have 1: "outfile opts = Some f \<and> f \<noteq> [] \<longrightarrow> output_filename (outfile opts) p = f"
    by (simp add: output_filename_def)
  have 2: "(outfile opts = None \<or> outfile opts = Some []) \<and>
    final_ext_split p stem ext \<and> CHR 0x0A \<notin> set stem
      \<longrightarrow> output_filename (outfile opts) p = stem @ ''.nc''"
    by (auto simp: output_filename_def NC_CONFIG_def final_ext_split_def
        re_match_ext_intro re_sub_ext_split)
  have 3: "(outfile opts = None \<or> outfile opts = Some []) \<and>
    final_ext_split p stem ext \<and> CHR 0x0A \<in> set stem
      \<longrightarrow> output_filename (outfile opts) p = p @ ''.nc''"
  proof (intro impI)
    assume h: "(outfile opts = None \<or> outfile opts = Some []) \<and>
      final_ext_split p stem ext \<and> CHR 0x0A \<in> set stem"
    have "\<not> re_match_ext p"
    proof
      assume "re_match_ext p"
      then obtain s e where
        se: "p = s @ CHR ''.'' # e" "CHR ''.'' \<notin> set e" "CHR 0x0A \<notin> set s"
        using re_match_ext_elim [of p] by blast
      from h have "p = stem @ CHR ''.'' # ext" and "CHR ''.'' \<notin> set ext"
        by (simp_all add: final_ext_split_def)
      with se have "s = stem" using split_unique [of s e stem ext] by simp
      with se h show False by simp
    qed
    with h show "output_filename (outfile opts) p = p @ ''.nc''"
      by (simp add: output_filename_no_ext)
  qed
  have 4: "(outfile opts = None \<or> outfile opts = Some []) \<and> (\<forall>s e. \<not> final_ext_split p s e)
      \<longrightarrow> output_filename (outfile opts) p = p @ ''.nc''"
  proof (intro impI)
    assume h: "(outfile opts = None \<or> outfile opts = Some []) \<and>
      (\<forall>s e. \<not> final_ext_split p s e)"
    then have "\<not> re_match_ext p"
      using re_match_ext_elim [of p] by (auto simp: final_ext_split_def)
    with h show "output_filename (outfile opts) p = p @ ''.nc''"
      by (simp add: output_filename_no_ext)
  qed
  have 5: "check_output opts fs inp = Inr out
      \<longrightarrow> out_filename out = output_filename (outfile opts) (in_filename inp)"
    by (simp add: check_output_filename)
  have 6: "check_output opts fs inp = Inr out \<and> check_output opts' fs' inp' = Inr out' \<and>
    in_filename inp = in_filename inp' \<and>
    (outfile opts = None \<or> outfile opts = Some []) \<and>
    (outfile opts' = None \<or> outfile opts' = Some [])
      \<longrightarrow> out_filename out = out_filename out'"
    using check_output_filename [of opts fs inp out]
      check_output_filename [of opts' fs' inp' out']
    by (auto simp: output_filename_def)
  from 1 2 3 4 5 6 show ?thesis by blast
qed

theorem C7_output_path_witness:
  "output_filename (Some ''out/rain.nc'') ''/data/ind2001_rfp25.grd'' = ''out/rain.nc'' \<and>
   output_filename None ''/data/ind2001_rfp25.grd'' = ''/data/ind2001_rfp25.nc'' \<and>
   output_filename None (''/data/a'' @ [CHR 0x0A] @ ''b.grd'')
     = (''/data/a'' @ [CHR 0x0A] @ ''b.grd'') @ ''.nc'' \<and>
   output_filename None ''/data/rainfile'' = ''/data/rainfile.nc''"
proof -
  let ?o1 = "\<lparr>infile = ''ind2001_rfp25.grd'', outfile = Some ''out/rain.nc'', clobber = False,
      opt_type = None, opt_year = None, ncvar = None, ncunits = None\<rparr>"
  let ?o2 = "\<lparr>infile = ''ind2001_rfp25.grd'', outfile = None, clobber = False,
      opt_type = None, opt_year = None, ncvar = None, ncunits = None\<rparr>"
  have a: "output_filename (Some ''out/rain.nc'') ''/data/ind2001_rfp25.grd'' = ''out/rain.nc''"
    using C7_output_path [where opts = ?o1 and f = "''out/rain.nc''" and
        p = "''/data/ind2001_rfp25.grd''"]
    by simp
  have b: "output_filename None ''/data/ind2001_rfp25.grd'' = ''/data/ind2001_rfp25.nc''"
    using C7_output_path [where opts = ?o2 and p = "''/data/ind2001_rfp25.grd''" and
        stem = "''/data/ind2001_rfp25''" and ext = "''grd''"]
    by (simp add: final_ext_split_def)
  have c: "output_filename None (''/data/a'' @ [CHR 0x0A] @ ''b.grd'')
     = (''/data/a'' @ [CHR 0x0A] @ ''b.grd'') @ ''.nc''"
    using C7_output_path [where opts = ?o2 and p = "''/data/a'' @ [CHR 0x0A] @ ''b.grd''" and
        stem = "''/data/a'' @ [CHR 0x0A] @ ''b''" and ext = "''grd''"]
    by (simp add: final_ext_split_def)
  have "\<forall>s e. \<not> final_ext_split ''/data/rainfile'' s e"
  proof (intro allI notI)
    fix s e
    assume "final_ext_split ''/data/rainfile'' s e"
    then have "''/data/rainfile'' = s @ CHR ''.'' # e" by (simp add: final_ext_split_def)
    then have "CHR ''.'' \<in> set ''/data/rainfile''" by (metis in_set_conv_decomp)
    then show False by simp
  qed
  then have d: "output_filename None ''/data/rainfile'' = ''/data/rainfile.nc''"
    using C7_output_path [where opts = ?o2 and p = "''/data/rainfile''"]
    by simp
  from a b c d show ?thesis by blast
qed

section \<open>Properties of validation\<close>

text \<open>
  C2, at the override \<^verbatim>\<open>--type mintemp\<close> on a rainfall-sized file. The cross-check of
  lines 222-227 compares the effective type with \<^verbatim>\<open>'min_temp'\<close> and \<^verbatim>\<open>'max_temp'\<close>,
  which are the NetCDF variable names; the type keys are \<^verbatim>\<open>'mintemp'\<close> and
  \<^verbatim>\<open>'maxtemp'\<close>. So the two temperature disjuncts never hold, and the override passes
  validation on a file of 25425901 bytes whose inferred type is \<open>rain\<close>.
\<close>

theorem C2_temperature_override_on_rainfall_accepted:
  "get_input
     \<lparr>infile = ''ind2001_rfp25.grd'', outfile = None, clobber = False,
      opt_type = Some ''mintemp'', opt_year = None, ncvar = None, ncunits = None\<rparr>
     \<lparr>path_exists = (\<lambda>p. p = ''ind2001_rfp25.grd''), getsize = (\<lambda>p. 25425901),
      abspath = (\<lambda>p. ''/data/'' @ p), file_bytes = (\<lambda>p. None)\<rparr>
   = Inr \<lparr>in_filename = ''/data/ind2001_rfp25.grd'', in_size = 25425901, in_type = ''rain'',
          in_days = 365, in_year = 2001, in_year_match = True\<rparr> \<and>
   check_input
     \<lparr>infile = ''ind2001_rfp25.grd'', outfile = None, clobber = False,
      opt_type = Some ''mintemp'', opt_year = None, ncvar = None, ncunits = None\<rparr>
     \<lparr>in_filename = ''/data/ind2001_rfp25.grd'', in_size = 25425901, in_type = ''rain'',
      in_days = 365, in_year = 2001, in_year_match = True\<rparr>
   = Inr \<lparr>in_filename = ''/data/ind2001_rfp25.grd'', in_size = 25425901,
          in_type = ''mintemp'', in_days = 365, in_year = 2001, in_year_match = True\<rparr> \<and>
   type_mismatch ''maxtemp'' ''rain'' = False \<and>
   type_mismatch ''rain'' ''mintemp'' = True"
  by (simp add: get_input_def check_input_def size_type_days_def guess_temp_type_def
      guess_year_def basename_def lower_def is_upper_def is_digit_def int_of_digits_def
      digit_val_def resolve_type_def resolve_year_def type_mismatch_def MIN_YEAR_def
      MAX_YEAR_def)

text \<open>
  C5, as stated, fails at the override \<^verbatim>\<open>--year 0\<close>. Line 236 tests the option for
  truth, so the supplied year 0 is dropped and the year of the file name is used. On the
  365-day file \<open>temp_min_2001.grd\<close> the supplied year 0 is divisible by 4, so the claim
  asks for a fatal error, but validation accepts the file with the year 2001. On a
  366-day file of the same name validation fails for the year 2001 and appends the
  \<^verbatim>\<open>-y\<close> hint, although a year was supplied explicitly.
\<close>

theorem C5_year_zero_counterexample:
  "spec_effective_year
     \<lparr>infile = ''temp_min_2001.grd'', outfile = None, clobber = False,
      opt_type = None, opt_year = Some 0, ncvar = None, ncunits = None\<rparr>
     \<lparr>in_filename = ''/data/temp_min_2001.grd'', in_size = 1403061, in_type = ''mintemp'',
      in_days = 365, in_year = 2001, in_year_match = True\<rparr> mod 4 = 0 \<and>
   check_input
     \<lparr>infile = ''temp_min_2001.grd'', outfile = None, clobber = False,
      opt_type = None, opt_year = Some 0, ncvar = None, ncunits = None\<rparr>
     \<lparr>in_filename = ''/data/temp_min_2001.grd'', in_size = 1403061, in_type = ''mintemp'',
      in_days = 365, in_year = 2001, in_year_match = True\<rparr>
   = Inr \<lparr>in_filename = ''/data/temp_min_2001.grd'', in_size = 1403061,
          in_type = ''mintemp'', in_days = 365, in_year = 2001, in_year_match = True\<rparr> \<and>
   check_input
     \<lparr>infile = ''temp_min_2001.grd'', outfile = None, clobber = False,
      opt_type = None, opt_year = Some 0, ncvar = None, ncunits = None\<rparr>
     \<lparr>in_filename = ''/data/temp_min_2001.grd'', in_size = 1406905, in_type = ''mintemp'',
      in_days = 366, in_year = 2001, in_year_match = True\<rparr>
   = Inl (Not_leap_year ''/data/temp_min_2001.grd'' 2001 True)"
  by (simp add: spec_effective_year_def check_input_def resolve_type_def resolve_year_def
      type_mismatch_def MIN_YEAR_def MAX_YEAR_def)

text \<open>
  C5, amended: the effective year \<open>y\<close> is the \<^verbatim>\<open>--year\<close> override when one is supplied
  and is not 0, and the year inferred from the file name otherwise. Validation fails
  whenever the file has 366 days and \<open>y mod 4 \<noteq> 0\<close>, or 365 days and \<open>y mod 4 = 0\<close>.
  When the earlier checks let the run through, the failure is the leap-year diagnostic
  for that file and year, and a file whose day count agrees with \<open>y mod 4\<close> is
  accepted. The diagnostic carries the \<^verbatim>\<open>-y\<close> hint exactly when the effective year was
  taken from the file name, that is when no override other than 0 was supplied and the
  file name held a year.
\<close>

theorem C5_leap_year_rule:
  "(opt_year opts = Some y0 \<and> y0 \<noteq> 0 \<longrightarrow> resolve_year opts inp = (y0, False)) \<and>
   (opt_year opts = None \<or> opt_year opts = Some 0
      \<longrightarrow> resolve_year opts inp = (in_year inp, in_year_match inp)) \<and>
   ((in_days inp = 366 \<and> fst (resolve_year opts inp) mod 4 \<noteq> 0) \<or>
    (in_days inp = 365 \<and> fst (resolve_year opts inp) mod 4 = 0)
      \<longrightarrow> (\<exists>e. check_input opts inp = Inl e)) \<and>
   (types_ok opts inp \<and> fst (resolve_year opts inp) \<noteq> - 1 \<and>
    1900 \<le> fst (resolve_year opts inp) \<and> fst (resolve_year opts inp) \<le> 2100 \<and>
    in_days inp = 366 \<and> fst (resolve_year opts inp) mod 4 \<noteq> 0
      \<longrightarrow> check_input opts inp =
            Inl (Not_leap_year (in_filename inp) (fst (resolve_year opts inp))
                   (snd (resolve_year opts inp)))) \<and>
   (types_ok opts inp \<and> fst (resolve_year opts inp) \<noteq> - 1 \<and>
    1900 \<le> fst (resolve_year opts inp) \<and> fst (resolve_year opts inp) \<le> 2100 \<and>
    in_days inp = 365 \<and> fst (resolve_year opts inp) mod 4 = 0
      \<longrightarrow> check_input opts inp =
            Inl (Leap_year (in_filename inp) (fst (resolve_year opts inp))
                   (snd (resolve_year opts inp)))) \<and>
   (types_ok opts inp \<and> fst (resolve_year opts inp) \<noteq> - 1 \<and>
    1900 \<le> fst (resolve_year opts inp) \<and> fst (resolve_year opts inp) \<le> 2100 \<and>
    ((in_days inp = 366 \<and> fst (resolve_year opts inp) mod 4 = 0) \<or>
     (in_days inp = 365 \<and> fst (resolve_year opts inp) mod 4 \<noteq> 0))
      \<longrightarrow> (\<exists>out. check_input opts inp = Inr out \<and>
             in_year out = fst (resolve_year opts inp) \<and> in_days out = in_days inp)) \<and>
   (check_input opts inp = Inl (Not_leap_year f y h) \<or>
    check_input opts inp = Inl (Leap_year f y h)
      \<longrightarrow> y = fst (resolve_year opts inp) \<and> h = snd (resolve_year opts inp)) \<and>
   (snd (resolve_year opts inp) \<longleftrightarrow>
      (opt_year opts = None \<or> opt_year opts = Some 0) \<and> in_year_match inp)"
  by (auto simp: check_input_def types_ok_def resolve_year_def MIN_YEAR_def MAX_YEAR_def
      Let_def split: option.splits if_splits)

theorem C5_leap_year_rule_witness:
  "check_input
     \<lparr>infile = ''temp_min_2001.grd'', outfile = None, clobber = False,
      opt_type = None, opt_year = Some 2000, ncvar = None, ncunits = None\<rparr>
     \<lparr>in_filename = ''/data/temp_min_2001.grd'', in_size = 1403061, in_type = ''mintemp'',
      in_days = 365, in_year = 2001, in_year_match = True\<rparr>
   = Inl (Leap_year ''/data/temp_min_2001.grd'' 2000 False) \<and>
   check_input
     \<lparr>infile = ''temp_min_2001.grd'', outfile = None, clobber = False,
      opt_type = None, opt_year = None, ncvar = None, ncunits = None\<rparr>
     \<lparr>in_filename = ''/data/temp_min_2001.grd'', in_size = 1406905, in_type = ''mintemp'',
      in_days = 366, in_year = 2001, in_year_match = True\<rparr>
   = Inl (Not_leap_year ''/data/temp_min_2001.grd'' 2001 True) \<and>
   (\<exists>out. check_input
     \<lparr>infile = ''temp_min_2001.grd'', outfile = None, clobber = False,
      opt_type = None, opt_year = None, ncvar = None, ncunits = None\<rparr>
     \<lparr>in_filename = ''/data/temp_min_2001.grd'', in_size = 1403061, in_type = ''mintemp'',
      in_days = 365, in_year = 2001, in_year_match = True\<rparr> = Inr out \<and>
     in_year out = 2001 \<and> in_days out = 365)"
  using
    C5_leap_year_rule [where
      opts = "\<lparr>infile = ''temp_min_2001.grd'', outfile = None, clobber = False,
        opt_type = None, opt_year = Some 2000, ncvar = None, ncunits = None\<rparr>" and
      inp = "\<lparr>in_filename = ''/data/temp_min_2001.grd'', in_size = 1403061,
        in_type = ''mintemp'', in_days = 365, in_year = 2001, in_year_match = True\<rparr>"]
    C5_leap_year_rule [where
      opts = "\<lparr>infile = ''temp_min_2001.grd'', outfile = None, clobber = False,
        opt_type = None, opt_year = None, ncvar = None, ncunits = None\<rparr>" and
      inp = "\<lparr>in_filename = ''/data/temp_min_2001.grd'', in_size = 1406905,
        in_type = ''mintemp'', in_days = 366, in_year = 2001, in_year_match = True\<rparr>"]
    C5_leap_year_rule [where
      opts = "\<lparr>infile = ''temp_min_2001.grd'', outfile = None, clobber = False,
        opt_type = None, opt_year = None, ncvar = None, ncunits = None\<rparr>" and
      inp = "\<lparr>in_filename = ''/data/temp_min_2001.grd'', in_size = 1403061,
        in_type = ''mintemp'', in_days = 365, in_year = 2001, in_year_match = True\<rparr>"]
  by (simp add: types_ok_def resolve_type_def resolve_year_def type_mismatch_def)

text \<open>
  C6, as stated, fails at the override \<^verbatim>\<open>--year 0\<close>. The supplied year 0 lies outside
  1900 to 2100, so the claim asks for a diagnostic; line 236 drops the 0, and the rainfall
  file \<open>ind2001_rfp25.grd\<close> is accepted with the year 2001 of its name.
\<close>

theorem C6_year_zero_counterexample:
  "spec_effective_year
     \<lparr>infile = ''ind2001_rfp25.grd'', outfile = None, clobber = False,
      opt_type = None, opt_year = Some 0, ncvar = None, ncunits = None\<rparr>
     \<lparr>in_filename = ''/data/ind2001_rfp25.grd'', in_size = 25425901, in_type = ''rain'',
      in_days = 365, in_year = 2001, in_year_match = True\<rparr> < MIN_YEAR \<and>
   check_input
     \<lparr>infile = ''ind2001_rfp25.grd'', outfile = None, clobber = False,
      opt_type = None, opt_year = Some 0, ncvar = None, ncunits = None\<rparr>
     \<lparr>in_filename = ''/data/ind2001_rfp25.grd'', in_size = 25425901, in_type = ''rain'',
      in_days = 365, in_year = 2001, in_year_match = True\<rparr>
   = Inr \<lparr>in_filename = ''/data/ind2001_rfp25.grd'', in_size = 25425901,
          in_type = ''rain'', in_days = 365, in_year = 2001, in_year_match = True\<rparr>"
  by (simp add: spec_effective_year_def check_input_def resolve_type_def resolve_year_def
      type_mismatch_def MIN_YEAR_def MAX_YEAR_def)

text \<open>
  C6, amended: the effective year \<open>y\<close> is the \<^verbatim>\<open>--year\<close> override when one is supplied
  and is not 0, and the year inferred from the file name otherwise. Validation fails
  whenever \<open>y\<close> is the sentinel -1 (as it is when no override other than 0 was supplied
  and the file name held no year) and whenever \<open>y < 1900\<close> or \<open>y > 2100\<close>. When the
  type checks let the run through, the failure is the missing-year diagnostic for -1 and
  the invalid-year diagnostic for any other year out of range. A year from 1900 to 2100
  never meets either diagnostic; 1900 and 2100, both divisible by 4, are accepted with a
  366-day file.
\<close>

theorem C6_year_sentinel_and_range:
  "(opt_year opts = Some y0 \<and> y0 \<noteq> 0 \<longrightarrow> resolve_year opts inp = (y0, False)) \<and>
   (opt_year opts = None \<or> opt_year opts = Some 0
      \<longrightarrow> resolve_year opts inp = (in_year inp, in_year_match inp)) \<and>
   ((opt_year opts = None \<or> opt_year opts = Some 0) \<and> in_year inp = - 1
      \<longrightarrow> fst (resolve_year opts inp) = - 1) \<and>
   (fst (resolve_year opts inp) = - 1 \<or> fst (resolve_year opts inp) < 1900 \<or>
    2100 < fst (resolve_year opts inp)
      \<longrightarrow> (\<exists>e. check_input opts inp = Inl e)) \<and>
   (types_ok opts inp \<and> fst (resolve_year opts inp) = - 1
      \<longrightarrow> check_input opts inp = Inl Year_missing) \<and>
   (types_ok opts inp \<and> fst (resolve_year opts inp) \<noteq> - 1 \<and>
    (fst (resolve_year opts inp) < 1900 \<or> 2100 < fst (resolve_year opts inp))
      \<longrightarrow> check_input opts inp = Inl (Invalid_year (fst (resolve_year opts inp)))) \<and>
   (1900 \<le> fst (resolve_year opts inp) \<and> fst (resolve_year opts inp) \<le> 2100
      \<longrightarrow> check_input opts inp \<noteq> Inl Year_missing \<and>
          check_input opts inp \<noteq> Inl (Invalid_year y)) \<and>
   (types_ok opts inp \<and> in_days inp = 366 \<and>
    (fst (resolve_year opts inp) = 1900 \<or> fst (resolve_year opts inp) = 2100)
      \<longrightarrow> (\<exists>out. check_input opts inp = Inr out \<and>
             in_year out = fst (resolve_year opts inp)))"
  by (auto simp: check_input_def types_ok_def resolve_year_def MIN_YEAR_def MAX_YEAR_def
      Let_def split: option.splits if_splits)

theorem C6_year_sentinel_and_range_witness:
  "check_input
     \<lparr>infile = ''rain.grd'', outfile = None, clobber = False,
      opt_type = None, opt_year = None, ncvar = None, ncunits = None\<rparr>
     \<lparr>in_filename = ''/data/rain.grd'', in_size = 25425901, in_type = ''rain'',
      in_days = 365, in_year = - 1, in_year_match = False\<rparr> = Inl Year_missing \<and>
   check_input
     \<lparr>infile = ''rain.grd'', outfile = None, clobber = False,
      opt_type = None, opt_year = Some 2101, ncvar = None, ncunits = None\<rparr>
     \<lparr>in_filename = ''/data/rain.grd'', in_size = 25425901, in_type = ''rain'',
      in_days = 365, in_year = - 1, in_year_match = False\<rparr> = Inl (Invalid_year 2101) \<and>
   check_input
     \<lparr>infile = ''rain.grd'', outfile = None, clobber = False,
      opt_type = None, opt_year = Some 1899, ncvar = None, ncunits = None\<rparr>
     \<lparr>in_filename = ''/data/rain.grd'', in_size = 25425901, in_type = ''rain'',
      in_days = 365, in_year = - 1, in_year_match = False\<rparr> = Inl (Invalid_year 1899) \<and>
   (\<exists>out. check_input
     \<lparr>infile = ''rain.grd'', outfile = None, clobber = False,
      opt_type = None, opt_year = Some 1900, ncvar = None, ncunits = None\<rparr>
     \<lparr>in_filename = ''/data/rain.grd'', in_size = 25495561, in_type = ''rain'',
      in_days = 366, in_year = - 1, in_year_match = False\<rparr> = Inr out \<and>
     in_year out = 1900) \<and>
   (\<exists>out. check_input
     \<lparr>infile = ''rain.grd'', outfile = None, clobber = False,
      opt_type = None, opt_year = Some 2100, ncvar = None, ncunits = None\<rparr>
     \<lparr>in_filename = ''/data/rain.grd'', in_size = 25495561, in_type = ''rain'',
      in_days = 366, in_year = - 1, in_year_match = False\<rparr> = Inr out \<and>
     in_year out = 2100)"
  using
    C6_year_sentinel_and_range [where
      opts = "\<lparr>infile = ''rain.grd'', outfile = None, clobber = False,
        opt_type = None, opt_year = None, ncvar = None, ncunits = None\<rparr>" and
      inp = "\<lparr>in_filename = ''/data/rain.grd'', in_size = 25425901, in_type = ''rain'',
        in_days = 365, in_year = - 1, in_year_match = False\<rparr>"]
    C6_year_sentinel_and_range [where
      opts = "\<lparr>infile = ''rain.grd'', outfile = None, clobber = False,
        opt_type = None, opt_year = Some 2101, ncvar = None, ncunits = None\<rparr>" and
      inp = "\<lparr>in_filename = ''/data/rain.grd'', in_size = 25425901, in_type = ''rain'',
        in_days = 365, in_year = - 1, in_year_match = False\<rparr>"]
    C6_year_sentinel_and_range [where
      opts = "\<lparr>infile = ''rain.grd'', outfile = None, clobber = False,
        opt_type = None, opt_year = Some 1899, ncvar = None, ncunits = None\<rparr>" and
      inp = "\<lparr>in_filename = ''/data/rain.grd'', in_size = 25425901, in_type = ''rain'',
        in_days = 365, in_year = - 1, in_year_match = False\<rparr>"]
    C6_year_sentinel_and_range [where
      opts = "\<lparr>infile = ''rain.grd'', outfile = None, clobber = False,
        opt_type = None, opt_year = Some 1900, ncvar = None, ncunits = None\<rparr>" and
      inp = "\<lparr>in_filename = ''/data/rain.grd'', in_size = 25495561, in_type = ''rain'',
        in_days = 366, in_year = - 1, in_year_match = False\<rparr>"]
    C6_year_sentinel_and_range [where
      opts = "\<lparr>infile = ''rain.grd'', outfile = None, clobber = False,
        opt_type = None, opt_year = Some 2100, ncvar = None, ncunits = None\<rparr>" and
      inp = "\<lparr>in_filename = ''/data/rain.grd'', in_size = 25495561, in_type = ''rain'',
        in_days = 366, in_year = - 1, in_year_match = False\<rparr>"]
  by (simp add: types_ok_def resolve_type_def resolve_year_def type_mismatch_def)

section \<open>The decode loop\<close>

lemma take4_in_record:
  assumes "k < n"
  shows "take 4 (drop (4 * k) (take (n * 4) (drop (d * (n * 4)) bytes)))
           = take 4 (drop (4 * (d * n + k)) bytes)"
proof -
  from assms have "4 \<le> n * 4 - 4 * k" by simp
  then have m4: "min 4 (n * 4 - 4 * k) = 4" by simp
  have e: "4 * k + d * (n * 4) = 4 * (d * n + k)" by (simp add: algebra_simps)
  have "take 4 (drop (4 * k) (take (n * 4) (drop (d * (n * 4)) bytes)))
          = take 4 (drop (4 * k + d * (n * 4)) bytes)"
    using m4 by (simp add: drop_take)
  then show ?thesis by (simp only: e)
qed

lemma struct_unpack_record:
  assumes "(d + 1) * (n * 4) \<le> length bytes"
  shows "struct_unpack f32 n (take (n * 4) (drop (d * (n * 4)) bytes))
           = Inr (map (\<lambda>k. cell_of f32 bytes (d * n + k)) [0..<n])"
proof -
  from assms have "n * 4 \<le> length bytes - d * (n * 4)" by simp
  then have len: "length (take (n * 4) (drop (d * (n * 4)) bytes)) = 4 * n" by simp
  have "map (\<lambda>k. f32 (le_word32 (take 4 (drop (4 * k)
            (take (n * 4) (drop (d * (n * 4)) bytes)))))) [0..<n]
        = map (\<lambda>k. cell_of f32 bytes (d * n + k)) [0..<n]"
    by (rule map_cong) (simp_all add: take4_in_record cell_of_def)
  with len show ?thesis by (simp add: struct_unpack_def)
qed

lemma row_of_flat:
  assumes "i < nlat"
  shows "take nlon (drop (i * nlon) (map f [0..<nlat * nlon]))
           = map (\<lambda>j. f (i * nlon + j)) [0..<nlon]"
proof -
  from assms have "Suc i \<le> nlat" by simp
  then have "Suc i * nlon \<le> nlat * nlon" by (rule mult_le_mono1)
  then have le: "i * nlon + nlon \<le> nlat * nlon" by simp
  have "take nlon (drop (i * nlon) (map f [0..<nlat * nlon]))
          = map f (take nlon [i * nlon..<nlat * nlon])"
    by (simp add: drop_map take_map)
  also from le have "take nlon [i * nlon..<nlat * nlon] = [i * nlon..<i * nlon + nlon]"
    by simp
  also have "map f [i * nlon..<i * nlon + nlon] = map (\<lambda>j. f (i * nlon + j)) [0..<nlon]"
    by (simp add: map_add_upt [symmetric] add.commute)
  finally show ?thesis .
qed

lemma reshape_record:
  "reshape nlat nlon (map (\<lambda>k. cell_of f32 bytes (d * (nlat * nlon) + k)) [0..<nlat * nlon])
     = Inr (day_grid f32 nlat nlon bytes d)"
proof -
  have "map (\<lambda>i. take nlon (drop (i * nlon)
            (map (\<lambda>k. cell_of f32 bytes (d * (nlat * nlon) + k)) [0..<nlat * nlon]))) [0..<nlat]
        = day_grid f32 nlat nlon bytes d"
    unfolding day_grid_def
    by (rule map_cong) (simp_all add: row_of_flat algebra_simps)
  then show ?thesis by (simp add: reshape_def)
qed

lemma read_days_step:
  assumes "(d + 1) * (nlat * nlon * 4) \<le> length bytes" and "d < length data"
  shows "read_days f32 nlat nlon (d # rest) (drop (d * (nlat * nlon * 4)) bytes) data
           = read_days f32 nlat nlon rest (drop ((d + 1) * (nlat * nlon * 4)) bytes)
               (data[d := day_grid f32 nlat nlon bytes d])"
proof -
  have dd: "drop (nlat * nlon * 4) (drop (d * (nlat * nlon * 4)) bytes)
              = drop ((d + 1) * (nlat * nlon * 4)) bytes"
    by (simp add: add.commute)
  show ?thesis
    using assms struct_unpack_record [of d "nlat * nlon" bytes f32]
      reshape_record [of nlat nlon f32 bytes d] dd
    by (simp add: Let_def)
qed

lemma read_days_range:
  "(k + m) * (nlat * nlon * 4) \<le> length bytes \<Longrightarrow> k + m \<le> length data \<Longrightarrow>
   \<exists>data'. read_days f32 nlat nlon [k..<k + m] (drop (k * (nlat * nlon * 4)) bytes) data
              = Inr (drop ((k + m) * (nlat * nlon * 4)) bytes, data') \<and>
     length data' = length data \<and>
     (\<forall>d<length data. data' ! d =
        (if k \<le> d \<and> d < k + m then day_grid f32 nlat nlon bytes d else data ! d))"
proof (induction m arbitrary: k data)
  case 0
  then show ?case by auto
next
  case (Suc m)
  let ?R = "nlat * nlon * 4"
  let ?data1 = "data[k := day_grid f32 nlat nlon bytes k]"
  have up: "[k..<k + Suc m] = k # [Suc k..<Suc k + m]"
    by (simp add: upt_conv_Cons)
  have "(k + 1) * ?R \<le> (k + Suc m) * ?R" by (intro mult_le_mono1) simp
  from this Suc.prems(1) have b1: "(k + 1) * ?R \<le> length bytes" by (rule le_trans)
  from Suc.prems(2) have k: "k < length data" by simp
  from Suc.prems have b2: "(Suc k + m) * ?R \<le> length bytes" and l2: "Suc k + m \<le> length ?data1"
    by simp_all
  from Suc.IH [OF b2 l2] obtain data' where
    rd: "read_days f32 nlat nlon [Suc k..<Suc k + m] (drop (Suc k * ?R) bytes) ?data1
           = Inr (drop ((Suc k + m) * ?R) bytes, data')" and
    len: "length data' = length ?data1" and
    cells: "\<forall>d<length ?data1. data' ! d =
        (if Suc k \<le> d \<and> d < Suc k + m then day_grid f32 nlat nlon bytes d else ?data1 ! d)"
    by blast
  have "read_days f32 nlat nlon [k..<k + Suc m] (drop (k * ?R) bytes) data
          = Inr (drop ((k + Suc m) * ?R) bytes, data')"
    using read_days_step [OF b1 k, of f32 "[Suc k..<Suc k + m]"] rd up by simp
  moreover have "length data' = length data" using len by simp
  moreover have "\<forall>d<length data. data' ! d =
        (if k \<le> d \<and> d < k + Suc m then day_grid f32 nlat nlon bytes d else data ! d)"
  proof (intro allI impI)
    fix d assume d: "d < length data"
    with cells have c: "data' ! d =
        (if Suc k \<le> d \<and> d < Suc k + m then day_grid f32 nlat nlon bytes d else ?data1 ! d)"
      by simp
    show "data' ! d =
        (if k \<le> d \<and> d < k + Suc m then day_grid f32 nlat nlon bytes d else data ! d)"
    proof (cases "d = k")
      case True
      with c k show ?thesis by simp
    next
      case False
      with c d show ?thesis by auto
    qed
  qed
  ultimately show ?case by blast
qed

lemma day_grid_cell:
  "i < nlat \<Longrightarrow> j < nlon \<Longrightarrow>
     day_grid f32 nlat nlon bytes d ! i ! j = cell_of f32 bytes ((d * nlat + i) * nlon + j)"
  by (simp add: day_grid_def)

lemma day_grid_shape:
  "length (day_grid f32 nlat nlon bytes d) = nlat"
  "i < nlat \<Longrightarrow> length (day_grid f32 nlat nlon bytes d ! i) = nlon"
  by (simp_all add: day_grid_def)
lemma DATA_TYPES_some:
  "DATA_TYPES t = Some spec \<Longrightarrow>
     (t = ''rain'' \<and> length (ds_lats spec) = 129 \<and> length (ds_lons spec) = 135) \<or>
     ((t = ''mintemp'' \<or> t = ''maxtemp'') \<and>
      length (ds_lats spec) = 31 \<and> length (ds_lons spec) = 31)"
  by (auto simp: DATA_TYPES_def arange_def split: if_splits)

lemma DATA_TYPES_dom:
  "DATA_TYPES t \<noteq> None \<Longrightarrow> t = ''rain'' \<or> t = ''mintemp'' \<or> t = ''maxtemp''"
  by (auto simp: DATA_TYPES_def split: if_splits)

lemma DATA_TYPES_keys:
  "DATA_TYPES ''rain'' \<noteq> None" "DATA_TYPES ''mintemp'' \<noteq> None"
  "DATA_TYPES ''maxtemp'' \<noteq> None"
  by (simp_all add: DATA_TYPES_def)

lemma guess_temp_type_temp: "guess_temp_type p ''temp'' \<noteq> ''rain''"
  by (simp add: guess_temp_type_def)

lemma guess_temp_type_cases:
  "guess_temp_type p t = t \<or> guess_temp_type p t = ''maxtemp'' \<or>
   guess_temp_type p t = ''mintemp''"
  by (simp add: guess_temp_type_def)

lemma size_type_days_Inr:
  "size_type_days sz = Inr (t, d) \<Longrightarrow>
     (sz = 25425901 \<and> t = ''rain'' \<and> d = 365) \<or>
     (sz = 25495561 \<and> t = ''rain'' \<and> d = 366) \<or>
     (sz = 1403061 \<and> t = ''temp'' \<and> d = 365) \<or>
     (sz = 1406905 \<and> t = ''temp'' \<and> d = 366)"
  by (simp add: size_type_days_def split: if_splits)

lemma get_input_Inr:
  "get_input opts fs = Inr inp0 \<Longrightarrow>
     \<exists>t d. size_type_days (getsize fs (infile opts)) = Inr (t, d) \<and>
       in_size inp0 = getsize fs (infile opts) \<and> in_days inp0 = d \<and>
       in_type inp0 = guess_temp_type (infile opts) t"
  by (auto simp: get_input_def Let_def split: if_splits sum.splits)

lemma get_input_sizes:
  assumes "get_input opts fs = Inr inp0"
  shows "(in_size inp0 = 25425901 \<and> in_days inp0 = 365) \<or>
     (in_size inp0 = 25495561 \<and> in_days inp0 = 366) \<or>
     (in_size inp0 = 1403061 \<and> in_days inp0 = 365 \<and> in_type inp0 \<noteq> ''rain'') \<or>
     (in_size inp0 = 1406905 \<and> in_days inp0 = 366 \<and> in_type inp0 \<noteq> ''rain'')"
proof -
  from get_input_Inr [OF assms] obtain t d where
    std: "size_type_days (getsize fs (infile opts)) = Inr (t, d)" and
    f: "in_size inp0 = getsize fs (infile opts)" "in_days inp0 = d"
      "in_type inp0 = guess_temp_type (infile opts) t"
    by blast
  from size_type_days_Inr [OF std] f guess_temp_type_temp [of "infile opts"]
  show ?thesis by auto
qed

lemma get_input_types:
  assumes "get_input opts fs = Inr inp0"
  shows "in_type inp0 = ''rain'' \<or> in_type inp0 = ''temp'' \<or>
     in_type inp0 = ''mintemp'' \<or> in_type inp0 = ''maxtemp''"
proof -
  from get_input_Inr [OF assms] obtain t d where
    std: "size_type_days (getsize fs (infile opts)) = Inr (t, d)" and
    f: "in_type inp0 = guess_temp_type (infile opts) t"
    by blast
  from size_type_days_Inr [OF std] have "t = ''rain'' \<or> t = ''temp''" by blast
  with f guess_temp_type_cases [of "infile opts" t] show ?thesis by auto
qed

lemma check_input_fields:
  "check_input opts inp0 = Inr inp \<Longrightarrow>
     in_type inp = resolve_type opts inp0 \<and> in_type inp \<noteq> ''temp'' \<and>
     \<not> type_mismatch (in_type inp) (in_type inp0) \<and>
     in_size inp = in_size inp0 \<and> in_days inp = in_days inp0 \<and>
     in_filename inp = in_filename inp0"
  by (auto simp: check_input_def Let_def split: if_splits)

lemma validated_type_known:
  assumes "get_input opts fs = Inr inp0" and "check_input opts inp0 = Inr inp"
    and "options_wf opts"
  shows "in_type inp = ''rain'' \<or> in_type inp = ''mintemp'' \<or> in_type inp = ''maxtemp''"
proof (cases "opt_type opts")
  case None
  with check_input_fields [OF assms(2)] get_input_types [OF assms(1)] show ?thesis
    by (auto simp: resolve_type_def)
next
  case (Some t)
  show ?thesis
  proof (cases "t = []")
    case True
    with Some check_input_fields [OF assms(2)] get_input_types [OF assms(1)] show ?thesis
      by (auto simp: resolve_type_def)
  next
    case False
    with Some assms(3) have "DATA_TYPES t \<noteq> None" by (simp add: options_wf_def)
    then have "t = ''rain'' \<or> t = ''mintemp'' \<or> t = ''maxtemp''" by (rule DATA_TYPES_dom)
    with Some False check_input_fields [OF assms(2)] show ?thesis
      by (auto simp: resolve_type_def)
  qed
qed

lemma validated_enough_bytes:
  assumes "get_input opts fs = Inr inp0" and "check_input opts inp0 = Inr inp"
    and "options_wf opts" and "DATA_TYPES (in_type inp) = Some spec"
  shows "0 < in_days inp \<and>
     int (nat (in_days inp) * (length (ds_lats spec) * length (ds_lons spec) * 4)) + 1
       \<le> in_size inp"
proof -
  note f = check_input_fields [OF assms(2)]
  note s = get_input_sizes [OF assms(1)]
  from DATA_TYPES_some [OF assms(4)] show ?thesis
  proof
    assume r: "in_type inp = ''rain'' \<and> length (ds_lats spec) = 129 \<and>
      length (ds_lons spec) = 135"
    with f have "in_type inp0 = ''rain''" by (auto simp: type_mismatch_def)
    with s have "(in_size inp0 = 25425901 \<and> in_days inp0 = 365) \<or>
      (in_size inp0 = 25495561 \<and> in_days inp0 = 366)" by auto
    with f r show ?thesis by auto
  next
    assume t: "(in_type inp = ''mintemp'' \<or> in_type inp = ''maxtemp'') \<and>
      length (ds_lats spec) = 31 \<and> length (ds_lons spec) = 31"
    with f s show ?thesis by auto
  qed
qed

lemma read_data_cells:
  assumes spec: "DATA_TYPES (in_type inp) = Some spec"
    and days: "0 < in_days inp"
    and fbs: "file_bytes fs (in_filename inp) = Some bytes"
    and len: "nat (in_days inp) * (length (ds_lats spec) * length (ds_lons spec) * 4)
                \<le> length bytes"
  shows "\<exists>pd. read_data f32 nan fs inp = Inr pd \<and>
     pd_nlats pd = length (ds_lats spec) \<and> pd_nlons pd = length (ds_lons spec) \<and>
     pd_days pd = in_days inp \<and>
     read_days f32 (pd_nlats pd) (pd_nlons pd) [0..<nat (in_days inp)] bytes
         (replicate (nat (in_days inp)) (replicate (pd_nlats pd) (replicate (pd_nlons pd) nan)))
       = Inr (drop (nat (in_days inp) * (pd_nlats pd * pd_nlons pd * 4)) bytes, pd_data pd) \<and>
     length (pd_data pd) = nat (in_days inp) \<and>
     (\<forall>d<nat (in_days inp). pd_data pd ! d = day_grid f32 (pd_nlats pd) (pd_nlons pd) bytes d)"
proof -
  let ?nlat = "length (ds_lats spec)"
  let ?nlon = "length (ds_lons spec)"
  let ?m = "nat (in_days inp)"
  let ?init = "replicate ?m (replicate ?nlat (replicate ?nlon nan))"
  from len have "(0 + ?m) * (?nlat * ?nlon * 4) \<le> length bytes" by simp
  moreover have "0 + ?m \<le> length ?init" by simp
  ultimately obtain data' where
    rd: "read_days f32 ?nlat ?nlon [0..<0 + ?m] (drop (0 * (?nlat * ?nlon * 4)) bytes) ?init
           = Inr (drop ((0 + ?m) * (?nlat * ?nlon * 4)) bytes, data')" and
    l: "length data' = length ?init" and
    c: "\<forall>d<length ?init. data' ! d =
          (if 0 \<le> d \<and> d < 0 + ?m then day_grid f32 ?nlat ?nlon bytes d else ?init ! d)"
    using read_days_range [of 0 ?m ?nlat ?nlon bytes ?init f32] by blast
  from rd have rd': "read_days f32 ?nlat ?nlon [0..<?m] bytes ?init
           = Inr (drop (?m * (?nlat * ?nlon * 4)) bytes, data')" by simp
  let ?pd = "\<lparr>pd_lats = ds_lats spec, pd_lons = ds_lons spec,
      pd_nlats = ?nlat, pd_nlons = ?nlon,
      pd_type = in_type inp, pd_year = in_year inp,
      pd_days = in_days inp, pd_fill = ds_fill spec, pd_data = data'\<rparr>"
  from spec days fbs rd' have "read_data f32 nan fs inp = Inr ?pd"
    by (simp add: read_data_def Let_def)
  moreover from c have "\<forall>d<?m. data' ! d = day_grid f32 ?nlat ?nlon bytes d" by simp
  ultimately show ?thesis using rd' l by (intro exI [of _ ?pd]) simp
qed

section \<open>Properties of decoding\<close>

text \<open>
  C9: let a descriptor come out of \<^verbatim>\<open>get_input\<close> and \<^verbatim>\<open>check_input\<close> for options that
  argparse accepts, and let the file hold as many bytes as its measured size. Then
  \<^verbatim>\<open>read_data\<close> succeeds. Its loop consumes exactly \<open>days\<close> records of
  \<open>latCount * lonCount * 4\<close> bytes from the start of the file; the array has \<open>days\<close>
  grids of \<open>latCount\<close> rows of \<open>lonCount\<close> cells; and the cell of day \<open>d\<close>, row \<open>i\<close>,
  column \<open>j\<close> is the value \<^verbatim>\<open>struct.unpack\<close> makes of the four bytes, least significant
  first, at byte offset \<open>4 * ((d * latCount + i) * lonCount + j)\<close>. This holds for
  every conversion \<open>f32\<close> of a 32-bit pattern to a value, so no pattern (that of a
  fill value included) is treated differently from any other.
\<close>

theorem C9_decode_layout:
  "get_input opts fs = Inr inp0 \<and> check_input opts inp0 = Inr inp \<and> options_wf opts \<and>
   file_bytes fs (in_filename inp) = Some bytes \<and> int (length bytes) = in_size inp
   \<longrightarrow> (\<exists>spec pd.
         DATA_TYPES (in_type inp) = Some spec \<and>
         read_data f32 nan fs inp = Inr pd \<and>
         pd_nlats pd = length (ds_lats spec) \<and> pd_nlons pd = length (ds_lons spec) \<and>
         pd_days pd = in_days inp \<and> (in_days inp = 365 \<or> in_days inp = 366) \<and>
         read_days f32 (pd_nlats pd) (pd_nlons pd) [0..<nat (in_days inp)] bytes
             (replicate (nat (in_days inp))
                (replicate (pd_nlats pd) (replicate (pd_nlons pd) nan)))
           = Inr (drop (nat (in_days inp) * (pd_nlats pd * pd_nlons pd * 4)) bytes,
                  pd_data pd) \<and>
         length (pd_data pd) = nat (in_days inp) \<and>
         (\<forall>d<nat (in_days inp).
            length (pd_data pd ! d) = pd_nlats pd \<and>
            (\<forall>i<pd_nlats pd.
               length (pd_data pd ! d ! i) = pd_nlons pd \<and>
               (\<forall>j<pd_nlons pd.
                  pd_data pd ! d ! i ! j
                    = f32 (le_word32 (take 4
                        (drop (4 * ((d * pd_nlats pd + i) * pd_nlons pd + j)) bytes)))))))"
proof (intro impI)
  assume h: "get_input opts fs = Inr inp0 \<and> check_input opts inp0 = Inr inp \<and>
    options_wf opts \<and> file_bytes fs (in_filename inp) = Some bytes \<and>
    int (length bytes) = in_size inp"
  then have gi: "get_input opts fs = Inr inp0" and ci: "check_input opts inp0 = Inr inp"
    and wf: "options_wf opts" and fbs: "file_bytes fs (in_filename inp) = Some bytes"
    and sz: "int (length bytes) = in_size inp"
    by simp_all
  from validated_type_known [OF gi ci wf] DATA_TYPES_keys
  obtain spec where spec: "DATA_TYPES (in_type inp) = Some spec" by auto
  let ?need = "nat (in_days inp) * (length (ds_lats spec) * length (ds_lons spec) * 4)"
  from validated_enough_bytes [OF gi ci wf spec]
  have days: "0 < in_days inp" and need: "int ?need + 1 \<le> in_size inp"
    by blast+
  from need sz have "int ?need \<le> int (length bytes)" by linarith
  then have len: "?need \<le> length bytes" by (simp only: of_nat_le_iff)
  from check_input_fields [OF ci] get_input_sizes [OF gi]
  have d36: "in_days inp = 365 \<or> in_days inp = 366" by auto
  from read_data_cells [OF spec days fbs len, of f32 nan] obtain pd where
    pd: "read_data f32 nan fs inp = Inr pd"
      "pd_nlats pd = length (ds_lats spec)" "pd_nlons pd = length (ds_lons spec)"
      "pd_days pd = in_days inp"
      "read_days f32 (pd_nlats pd) (pd_nlons pd) [0..<nat (in_days inp)] bytes
         (replicate (nat (in_days inp)) (replicate (pd_nlats pd) (replicate (pd_nlons pd) nan)))
       = Inr (drop (nat (in_days inp) * (pd_nlats pd * pd_nlons pd * 4)) bytes, pd_data pd)"
      "length (pd_data pd) = nat (in_days inp)" and
    grids: "\<forall>d<nat (in_days inp).
      pd_data pd ! d = day_grid f32 (pd_nlats pd) (pd_nlons pd) bytes d"
    by blast
  have "\<forall>d<nat (in_days inp).
            length (pd_data pd ! d) = pd_nlats pd \<and>
            (\<forall>i<pd_nlats pd.
               length (pd_data pd ! d ! i) = pd_nlons pd \<and>
               (\<forall>j<pd_nlons pd.
                  pd_data pd ! d ! i ! j
                    = f32 (le_word32 (take 4
                        (drop (4 * ((d * pd_nlats pd + i) * pd_nlons pd + j)) bytes)))))"
    using grids by (simp add: day_grid_shape day_grid_cell cell_of_def)
  with spec pd d36 show "\<exists>spec pd.
         DATA_TYPES (in_type inp) = Some spec \<and>
         read_data f32 nan fs inp = Inr pd \<and>
         pd_nlats pd = length (ds_lats spec) \<and> pd_nlons pd = length (ds_lons spec) \<and>
         pd_days pd = in_days inp \<and> (in_days inp = 365 \<or> in_days inp = 366) \<and>
         read_days f32 (pd_nlats pd) (pd_nlons pd) [0..<nat (in_days inp)] bytes
             (replicate (nat (in_days inp))
                (replicate (pd_nlats pd) (replicate (pd_nlons pd) nan)))
           = Inr (drop (nat (in_days inp) * (pd_nlats pd * pd_nlons pd * 4)) bytes,
                  pd_data pd) \<and>
         length (pd_data pd) = nat (in_days inp) \<and>
         (\<forall>d<nat (in_days inp).
            length (pd_data pd ! d) = pd_nlats pd \<and>
            (\<forall>i<pd_nlats pd.
               length (pd_data pd ! d ! i) = pd_nlons pd \<and>
               (\<forall>j<pd_nlons pd.
                  pd_data pd ! d ! i ! j
                    = f32 (le_word32 (take 4
                        (drop (4 * ((d * pd_nlats pd + i) * pd_nlons pd + j)) bytes))))))"
    by blast
qed

theorem C9_decode_layout_witness:
  "\<exists>pd. read_data (\<lambda>w. w) 0
       \<lparr>path_exists = (\<lambda>p. True), getsize = (\<lambda>p. 1403061),
        abspath = (\<lambda>p. ''/data/'' @ p),
        file_bytes = (\<lambda>p. Some (map of_nat [0..<1403061]))\<rparr>
       \<lparr>in_filename = ''/data/MinT_2001.GRD'', in_size = 1403061, in_type = ''mintemp'',
        in_days = 365, in_year = 2001, in_year_match = True\<rparr> = Inr pd \<and>
     pd_nlats pd = 31 \<and> pd_nlons pd = 31 \<and> length (pd_data pd) = 365 \<and>
     length (pd_data pd ! 364) = 31 \<and> length (pd_data pd ! 364 ! 30) = 31 \<and>
     pd_data pd ! 0 ! 0 ! 1 = 0x07060504 \<and>
     pd_data pd ! 364 ! 30 ! 30 = 0xB3B2B1B0"
proof -
  define bytes :: "byte list" where "bytes = map of_nat [0..<1403061]"
  let ?fs = "\<lparr>path_exists = (\<lambda>p. True), getsize = (\<lambda>p. 1403061),
        abspath = (\<lambda>p. ''/data/'' @ p), file_bytes = (\<lambda>p. Some bytes)\<rparr>"
  let ?opts = "\<lparr>infile = ''MinT_2001.GRD'', outfile = None, clobber = False,
        opt_type = None, opt_year = None, ncvar = None, ncunits = None\<rparr>"
  let ?inp = "\<lparr>in_filename = ''/data/MinT_2001.GRD'', in_size = 1403061,
        in_type = ''mintemp'', in_days = 365, in_year = 2001, in_year_match = True\<rparr>"
  have gi: "get_input ?opts ?fs = Inr ?inp"
    by (simp add: get_input_def size_type_days_def guess_temp_type_def guess_year_def
        basename_def lower_def is_upper_def is_digit_def int_of_digits_def digit_val_def)
  have ci: "check_input ?opts ?inp = Inr ?inp"
    by (simp add: check_input_def resolve_type_def resolve_year_def type_mismatch_def
        MIN_YEAR_def MAX_YEAR_def)
  have wf: "options_wf ?opts" by (simp add: options_wf_def)
  have fb: "file_bytes ?fs (in_filename ?inp) = Some bytes" by simp
  have sz: "int (length bytes) = in_size ?inp" by (simp add: bytes_def)
  from C9_decode_layout [where opts = ?opts and fs = ?fs and inp0 = ?inp and inp = ?inp
      and bytes = bytes and ?f32.0 = "\<lambda>w. w" and nan = 0] gi ci wf fb sz
  obtain spec pd where
    spec: "DATA_TYPES (in_type ?inp) = Some spec" and
    rd: "read_data (\<lambda>w. w) 0 ?fs ?inp = Inr pd" and
    n: "pd_nlats pd = length (ds_lats spec)" "pd_nlons pd = length (ds_lons spec)" and
    l: "length (pd_data pd) = nat (in_days ?inp)" and
    cells: "\<forall>d<nat (in_days ?inp).
            length (pd_data pd ! d) = pd_nlats pd \<and>
            (\<forall>i<pd_nlats pd.
               length (pd_data pd ! d ! i) = pd_nlons pd \<and>
               (\<forall>j<pd_nlons pd.
                  pd_data pd ! d ! i ! j
                    = le_word32 (take 4
                        (drop (4 * ((d * pd_nlats pd + i) * pd_nlons pd + j)) bytes))))"
    by blast
  from DATA_TYPES_some [OF spec] n have n31: "pd_nlats pd = 31" "pd_nlons pd = 31"
    by simp_all
  have "take 4 (drop 4 bytes) = map of_nat (drop 4 (take 8 [0..<1403061]))"
    unfolding bytes_def by (simp only: take_map drop_map take_drop) simp
  also have "take 8 [0..<1403061] = [0..<8]"
    using take_upt [of 0 8 1403061] by simp
  also have "map of_nat (drop 4 [0..<8]) = ([4, 5, 6, 7] :: byte list)"
    by simp
  finally have b0: "take 4 (drop 4 bytes) = [4, 5, 6, 7]" .
  have b1: "take 4 (drop 1403056 bytes) = [0xB0, 0xB1, 0xB2, 0xB3]"
    unfolding bytes_def by (simp add: take_map drop_map)
  have w0: "le_word32 [4, 5, 6, 7] = 0x07060504"
    by (simp add: le_word32_def)
  have w1: "le_word32 [0xB0, 0xB1, 0xB2, 0xB3] = 0xB3B2B1B0"
    by (simp add: le_word32_def)
  from cells n31 have c0: "pd_data pd ! 0 ! 0 ! 1 = le_word32 (take 4 (drop 4 bytes))"
    by simp
  from cells n31 have c1: "length (pd_data pd ! 364) = 31 \<and>
      length (pd_data pd ! 364 ! 30) = 31 \<and>
      pd_data pd ! 364 ! 30 ! 30 = le_word32 (take 4 (drop 1403056 bytes))"
    by simp
  from rd n31 l c0 c1 b0 b1 w0 w1
  have "read_data (\<lambda>w. w) 0 ?fs ?inp = Inr pd \<and>
     pd_nlats pd = 31 \<and> pd_nlons pd = 31 \<and> length (pd_data pd) = 365 \<and>
     length (pd_data pd ! 364) = 31 \<and> length (pd_data pd ! 364 ! 30) = 31 \<and>
     pd_data pd ! 0 ! 0 ! 1 = 0x07060504 \<and>
     pd_data pd ! 364 ! 30 ! 30 = 0xB3B2B1B0"
    by simp
  then show ?thesis unfolding bytes_def by (rule exI)
qed

section \<open>Properties of the emitted variable\<close>

lemma read_data_type:
  "read_data f32 nan fs inp = Inr pd \<Longrightarrow> pd_type pd = in_type inp"
  by (auto simp: read_data_def Let_def split: option.splits sum.splits if_splits)

lemma write_data_rain:
  "pd_type pd = ''rain'' \<Longrightarrow>
     \<exists>ncf. write_data pd outp = Inr ncf \<and> nc_filename ncf = out_filename outp \<and>
       nc_data_name ncf = ''rainfall'' \<and> nc_data_units ncf = ''mm''"
  by (simp add: write_data_def DATA_TYPES_def)

text \<open>
  C1, at the overrides \<^verbatim>\<open>--ncvar precip --ncunits inches\<close> on a 365-day rainfall file.
  \<^verbatim>\<open>check_output\<close> stores the overrides in \<^verbatim>\<open>prog_output\<close>, but \<^verbatim>\<open>write_data\<close>
  never reads \<^verbatim>\<open>prog_output['nc_var']\<close> or \<^verbatim>\<open>prog_output['nc_units']\<close>: lines 418 and
  428 take the name and the units from \<^verbatim>\<open>DATA_TYPES\<close> again. The run succeeds and the
  variable it writes is \<open>rainfall\<close> in \<open>mm\<close>, not \<open>precip\<close> in \<open>inches\<close>.
\<close>

theorem C1_overrides_not_written:
  "check_output
     \<lparr>infile = ''ind2001_rfp25.grd'', outfile = None, clobber = False,
      opt_type = None, opt_year = None, ncvar = Some ''precip'', ncunits = Some ''inches''\<rparr>
     \<lparr>path_exists = (\<lambda>p. p = ''ind2001_rfp25.grd''), getsize = (\<lambda>p. 25425901),
      abspath = (\<lambda>p. ''/data/'' @ p),
      file_bytes = (\<lambda>p. Some (map of_nat [0..<25425901]))\<rparr>
     \<lparr>in_filename = ''/data/ind2001_rfp25.grd'', in_size = 25425901, in_type = ''rain'',
      in_days = 365, in_year = 2001, in_year_match = True\<rparr>
   = Inr \<lparr>out_filename = ''/data/ind2001_rfp25.nc'', out_nc_var = ''precip'',
          out_nc_units = ''inches''\<rparr> \<and>
   (\<exists>ncf. main (\<lambda>w. w) 0
       \<lparr>infile = ''ind2001_rfp25.grd'', outfile = None, clobber = False,
        opt_type = None, opt_year = None, ncvar = Some ''precip'',
        ncunits = Some ''inches''\<rparr>
       \<lparr>path_exists = (\<lambda>p. p = ''ind2001_rfp25.grd''), getsize = (\<lambda>p. 25425901),
        abspath = (\<lambda>p. ''/data/'' @ p),
        file_bytes = (\<lambda>p. Some (map of_nat [0..<25425901]))\<rparr> = Inr ncf \<and>
      nc_filename ncf = ''/data/ind2001_rfp25.nc'' \<and>
      nc_data_name ncf = ''rainfall'' \<and> nc_data_units ncf = ''mm'')"
proof -
  define bytes :: "byte list" where "bytes = map of_nat [0..<25425901]"
  let ?fs = "\<lparr>path_exists = (\<lambda>p. p = ''ind2001_rfp25.grd''), getsize = (\<lambda>p. 25425901),
      abspath = (\<lambda>p. ''/data/'' @ p), file_bytes = (\<lambda>p. Some bytes)\<rparr>"
  let ?opts = "\<lparr>infile = ''ind2001_rfp25.grd'', outfile = None, clobber = False,
      opt_type = None, opt_year = None, ncvar = Some ''precip'', ncunits = Some ''inches''\<rparr>"
  let ?inp = "\<lparr>in_filename = ''/data/ind2001_rfp25.grd'', in_size = 25425901,
      in_type = ''rain'', in_days = 365, in_year = 2001, in_year_match = True\<rparr>"
  let ?out = "\<lparr>out_filename = ''/data/ind2001_rfp25.nc'', out_nc_var = ''precip'',
      out_nc_units = ''inches''\<rparr>"
  have gi: "get_input ?opts ?fs = Inr ?inp"
    by (simp add: get_input_def size_type_days_def guess_temp_type_def guess_year_def
        basename_def lower_def is_upper_def is_digit_def int_of_digits_def digit_val_def)
  have ci: "check_input ?opts ?inp = Inr ?inp"
    by (simp add: check_input_def resolve_type_def resolve_year_def type_mismatch_def
        MIN_YEAR_def MAX_YEAR_def)
  have co: "check_output ?opts ?fs ?inp = Inr ?out"
    by (simp add: check_output_def output_filename_def default_of_def NC_CONFIG_def)
  from DATA_TYPES_keys(1) obtain spec where spec: "DATA_TYPES (in_type ?inp) = Some spec"
    by auto
  from DATA_TYPES_some [OF spec]
  have n: "length (ds_lats spec) = 129" "length (ds_lons spec) = 135" by simp_all
  have days: "0 < in_days ?inp" by simp
  have fb: "file_bytes ?fs (in_filename ?inp) = Some bytes" by simp
  have len: "nat (in_days ?inp) * (length (ds_lats spec) * length (ds_lons spec) * 4)
      \<le> length bytes"
    by (simp add: n bytes_def)
  from read_data_cells [OF spec days fb len, of "\<lambda>w. w" 0] obtain pd where
    rd: "read_data (\<lambda>w. w) 0 ?fs ?inp = Inr pd"
    by blast
  from read_data_type [OF rd] have "pd_type pd = ''rain''" by simp
  from write_data_rain [OF this, of ?out] obtain ncf where
    wd: "write_data pd ?out = Inr ncf" and
    f: "nc_filename ncf = ''/data/ind2001_rfp25.nc''" "nc_data_name ncf = ''rainfall''"
      "nc_data_units ncf = ''mm''"
    by auto
  from gi ci co rd wd have "main (\<lambda>w. w) 0 ?opts ?fs = Inr ncf"
    by (simp add: main_def)
  with f have "\<exists>ncf. main (\<lambda>w. w) 0 ?opts ?fs = Inr ncf \<and>
      nc_filename ncf = ''/data/ind2001_rfp25.nc'' \<and>
      nc_data_name ncf = ''rainfall'' \<and> nc_data_units ncf = ''mm''"
    by blast
  with co show ?thesis unfolding bytes_def by blast
qed

end
